theory Spec2Isabelle
  imports Complex_Main
begin

section \<open>OnShape Touch: the gesture classifier and event synthesizer\<close>

text \<open>
  The user script keeps four module-level variables (\<open>canvas\<close>, \<open>mode\<close>, \<open>prevDistance\<close>,
  \<open>contextMenuTimer\<close>) and registers three touch listeners; a timer callback armed by
  \<open>touchstart\<close> is the fourth entry point. Each entry point is modelled as a function from
  the state before to the state after, the effects it had on the page in order, and
  whether it returned or threw. JavaScript numbers are modelled as real numbers (no
  rounding); a division, which JavaScript never fails, yields a \<open>number\<close> that can be
  infinite or NaN.
\<close>

subsection \<open>Platform data\<close>

text \<open>A \<open>Touch\<close> of the platform, with the six coordinates the script reads.\<close>

record touch =
  screenX :: real
  screenY :: real
  clientX :: real
  clientY :: real
  pageX :: real
  pageY :: real

text \<open>
  The target of a notification. \<open>target_id\<close> is \<open>None\<close> when the object has no \<open>id\<close>
  property (\<open>'id' in target\<close> is false).
\<close>

datatype event_target = EventTarget (target_id: "string option")

record touch_event =
  target :: "event_target option"
  touches :: "touch list"

datatype element = Element nat

text \<open>The result of a JavaScript division of two finite numbers.\<close>

datatype number = Finite real | PosInfinity | NegInfinity | NaN

definition divide_number :: "real \<Rightarrow> real \<Rightarrow> number" where
  "divide_number a b =
     (if b \<noteq> 0 then Finite (a / b)
      else if a = 0 then NaN
      else if 0 < a then PosInfinity else NegInfinity)"

fun times_number :: "number \<Rightarrow> real \<Rightarrow> number" where
  "times_number (Finite a) c = Finite (a * c)"
| "times_number PosInfinity c = (if 0 < c then PosInfinity else if c < 0 then NegInfinity else NaN)"
| "times_number NegInfinity c = (if 0 < c then NegInfinity else if c < 0 then PosInfinity else NaN)"
| "times_number NaN c = NaN"

text \<open>\<open>Math.hypot\<close> of two arguments.\<close>

definition hypot :: "real \<Rightarrow> real \<Rightarrow> real" where
  "hypot a b = sqrt (a\<^sup>2 + b\<^sup>2)"

text \<open>
  The dictionary handed to the \<open>MouseEvent\<close> and \<open>WheelEvent\<close> constructors, with the
  members the script sets; \<open>None\<close> is an absent member.
\<close>

record event_init =
  init_screenX :: "real option"
  init_screenY :: "real option"
  init_clientX :: "real option"
  init_clientY :: "real option"
  init_pageX :: "real option"
  init_pageY :: "real option"
  init_button :: "int option"
  init_buttons :: "int option"
  init_deltaY :: "number option"
  init_bubbles :: "bool option"

definition empty_init :: event_init where
  "empty_init =
     \<lparr>init_screenX = None, init_screenY = None, init_clientX = None, init_clientY = None,
      init_pageX = None, init_pageY = None, init_button = None, init_buttons = None,
      init_deltaY = None, init_bubbles = None\<rparr>"

text \<open>One member of \<open>{...a, ...b}\<close>: the member of \<open>b\<close> when it has one.\<close>

definition override :: "'a option \<Rightarrow> 'a option \<Rightarrow> 'a option" where
  "override x y = (case y of None \<Rightarrow> x | Some v \<Rightarrow> Some v)"

definition spread :: "event_init \<Rightarrow> event_init \<Rightarrow> event_init" where
  "spread a b =
     \<lparr>init_screenX = override (init_screenX a) (init_screenX b),
      init_screenY = override (init_screenY a) (init_screenY b),
      init_clientX = override (init_clientX a) (init_clientX b),
      init_clientY = override (init_clientY a) (init_clientY b),
      init_pageX = override (init_pageX a) (init_pageX b),
      init_pageY = override (init_pageY a) (init_pageY b),
      init_button = override (init_button a) (init_button b),
      init_buttons = override (init_buttons a) (init_buttons b),
      init_deltaY = override (init_deltaY a) (init_deltaY b),
      init_bubbles = override (init_bubbles a) (init_bubbles b)\<rparr>"

datatype mouse_type = mousewheel | mousedown | mouseup | mousemove

datatype event_ctor = WheelEvent | MouseEvent

record synth_event =
  ev_ctor :: event_ctor
  ev_type :: mouse_type
  ev_init :: event_init

text \<open>
  What a constructed event reports for a member: the value of the dictionary, or the
  default of the DOM (\<open>0\<close> for numbers, \<open>false\<close> for \<open>bubbles\<close>).
\<close>

definition ev_button :: "synth_event \<Rightarrow> int" where
  "ev_button ev = (case init_button (ev_init ev) of None \<Rightarrow> 0 | Some b \<Rightarrow> b)"

definition ev_buttons :: "synth_event \<Rightarrow> int" where
  "ev_buttons ev = (case init_buttons (ev_init ev) of None \<Rightarrow> 0 | Some b \<Rightarrow> b)"

definition ev_bubbles :: "synth_event \<Rightarrow> bool" where
  "ev_bubbles ev = (case init_bubbles (ev_init ev) of None \<Rightarrow> False | Some b \<Rightarrow> b)"

text \<open>What a handler does to the page, in order.\<close>

datatype effect = PreventDefault | Dispatched element synth_event

datatype error = TypeError

datatype outcome = Returned | Threw error

text \<open>
  What the page answers when asked: \<open>document.getElementById('canvas')\<close> and
  \<open>window.screen.width\<close>.
\<close>

record env =
  getElementById_canvas :: "element option"
  screen_width :: real

subsection \<open>The script's state and the platform's timers\<close>

definition ZOOM_SENSITIVITY :: real where
  "ZOOM_SENSITIVITY = 10000"

definition CONTEXT_MENU_TIMEOUT :: nat where
  "CONTEXT_MENU_TIMEOUT = 1000"

datatype Mode = Mode_None | PreRotate | PreZoomPan | Rotate | ZoomPan

text \<open>
  A timer the platform holds: its handle, its delay in milliseconds and the touch event
  its callback closes over (the script has one callback only).
\<close>

record pending_timer =
  timer_id :: nat
  timer_delay :: nat
  timer_event :: touch_event

record state =
  canvas :: "element option"
  mode :: Mode
  prevDistance :: "real option"
  contextMenuTimer :: "nat option"
  timers :: "pending_timer list"
  next_timer :: nat

definition init_state :: state where
  "init_state =
     \<lparr>canvas = None, mode = Mode_None, prevDistance = None, contextMenuTimer = None,
      timers = [], next_timer = 1\<rparr>"

definition setTimeout :: "touch_event \<Rightarrow> nat \<Rightarrow> state \<Rightarrow> nat \<times> state" where
  "setTimeout e ms s =
     (next_timer s,
      s\<lparr>timers := timers s @ [\<lparr>timer_id = next_timer s, timer_delay = ms, timer_event = e\<rparr>],
        next_timer := Suc (next_timer s)\<rparr>)"

definition clearTimeout :: "nat \<Rightarrow> state \<Rightarrow> state" where
  "clearTimeout t s = s\<lparr>timers := filter (\<lambda>p. timer_id p \<noteq> t) (timers s)\<rparr>"

subsection \<open>dispatchEvent\<close>

text \<open>The coordinate members of \<open>init\<close>, before \<open>eventInit\<close> is spread over them.\<close>

fun touch_init :: "touch list \<Rightarrow> event_init" where
  "touch_init (a # b # rest) =
     empty_init
       \<lparr>init_screenX := Some ((screenX a + screenX b) / 2),
        init_screenY := Some ((screenY a + screenY b) / 2),
        init_clientX := Some ((clientX a + clientX b) / 2),
        init_clientY := Some ((clientY a + clientY b) / 2),
        init_pageX := Some ((pageX a + pageX b) / 2),
        init_pageY := Some ((pageY a + pageY b) / 2)\<rparr>"
| "touch_init [a] =
     empty_init
       \<lparr>init_screenX := Some (screenX a), init_screenY := Some (screenY a),
        init_clientX := Some (clientX a), init_clientY := Some (clientY a),
        init_pageX := Some (pageX a), init_pageY := Some (pageY a)\<rparr>"
| "touch_init [] =
     empty_init
       \<lparr>init_screenX := Some 0, init_screenY := Some 0,
        init_clientX := Some 0, init_clientY := Some 0,
        init_pageX := Some 0, init_pageY := Some 0\<rparr>"

definition dispatchEvent ::
  "env \<Rightarrow> touch_event \<Rightarrow> mouse_type \<Rightarrow> event_init \<Rightarrow> state \<Rightarrow> state \<times> effect list" where
  "dispatchEvent page touchEvent ty eventInit s =
     (let s1 = (case canvas s of
                  None \<Rightarrow> s\<lparr>canvas := getElementById_canvas page\<rparr>
                | Some el \<Rightarrow> s);
          init = (spread (touch_init (touches touchEvent)) eventInit)\<lparr>init_bubbles := Some True\<rparr>
      in case canvas s1 of
           None \<Rightarrow> (s1, [])
         | Some el \<Rightarrow>
             (s1, [Dispatched el
                     \<lparr>ev_ctor = (if ty = mousewheel then WheelEvent else MouseEvent),
                      ev_type = ty, ev_init = init\<rparr>]))"

subsection \<open>checkEvent and the listeners\<close>

definition checkEvent :: "touch_event \<Rightarrow> state \<Rightarrow> bool \<times> state \<times> effect list" where
  "checkEvent touchEvent s =
     (if (case target touchEvent of
            None \<Rightarrow> False
          | Some t \<Rightarrow> (case target_id t of None \<Rightarrow> False | Some i \<Rightarrow> i \<noteq> ''canvas''))
      then (False, s, [])
      else (True,
            (case contextMenuTimer s of
               None \<Rightarrow> s
             | Some t \<Rightarrow> if t \<noteq> 0 then (clearTimeout t s)\<lparr>contextMenuTimer := None\<rparr> else s),
            [PreventDefault]))"

text \<open>The callback of the timer armed by \<open>touchstart\<close>, closed over that event.\<close>

definition contextMenuCallback :: "env \<Rightarrow> touch_event \<Rightarrow> state \<Rightarrow> state \<times> effect list" where
  "contextMenuCallback page e s =
     (let s1 = s\<lparr>mode := Mode_None, contextMenuTimer := None\<rparr>;
          common = empty_init\<lparr>init_button := Some 2, init_buttons := Some 2\<rparr>
      in case dispatchEvent page e mousedown common s1 of (s2, f1) \<Rightarrow>
         case dispatchEvent page e mouseup common s2 of (s3, f2) \<Rightarrow>
           (s3, f1 @ f2))"

definition touchstart :: "env \<Rightarrow> touch_event \<Rightarrow> state \<Rightarrow> state \<times> effect list \<times> outcome" where
  "touchstart page e s =
     (case checkEvent e s of (ok, s1, fx) \<Rightarrow>
        if \<not> ok then (s1, fx, Returned)
        else
          let s2 = s1\<lparr>mode := (if 2 \<le> length (touches e) then PreZoomPan else PreRotate)\<rparr>
          in case setTimeout e CONTEXT_MENU_TIMEOUT s2 of (t, s3) \<Rightarrow>
               (s3\<lparr>contextMenuTimer := Some t\<rparr>, fx, Returned))"

definition touchmove :: "env \<Rightarrow> touch_event \<Rightarrow> state \<Rightarrow> state \<times> effect list \<times> outcome" where
  "touchmove page e s =
     (case checkEvent e s of (ok, s1, fx) \<Rightarrow>
        if \<not> ok then (s1, fx, Returned)
        else
          case mode s1 of
            PreZoomPan \<Rightarrow>
              (case dispatchEvent page e mousedown
                      (empty_init\<lparr>init_button := Some 1, init_buttons := Some 4\<rparr>)
                      (s1\<lparr>mode := ZoomPan\<rparr>) of
                 (s2, f1) \<Rightarrow> (s2, fx @ f1, Returned))
          | ZoomPan \<Rightarrow>
              (case dispatchEvent page e mousemove (empty_init\<lparr>init_button := Some 2\<rparr>) s1 of
                 (s2, f1) \<Rightarrow>
                   (case touches e of
                      a # b # rest \<Rightarrow>
                        let distance = hypot (screenX a - screenX b) (screenY a - screenY b)
                        in (case (case prevDistance s2 of
                                    None \<Rightarrow> (s2, [])
                                  | Some p \<Rightarrow>
                                      if p \<noteq> 0
                                      then dispatchEvent page e mousewheel
                                             (empty_init
                                                \<lparr>init_deltaY :=
                                                   Some (times_number
                                                           (divide_number (distance - p)
                                                              (screen_width page))
                                                           ZOOM_SENSITIVITY)\<rparr>)
                                             s2
                                      else (s2, [])) of
                              (s3, f2) \<Rightarrow>
                                (s3\<lparr>prevDistance := Some distance\<rparr>, fx @ f1 @ f2, Returned))
                    | _ \<Rightarrow> (s2, fx @ f1, Threw TypeError)))
          | PreRotate \<Rightarrow>
              (case dispatchEvent page e mousedown
                      (empty_init\<lparr>init_button := Some 2, init_buttons := Some 2\<rparr>)
                      (s1\<lparr>mode := Rotate\<rparr>) of
                 (s2, f1) \<Rightarrow> (s2, fx @ f1, Returned))
          | Rotate \<Rightarrow>
              (case dispatchEvent page e mousemove
                      (empty_init\<lparr>init_button := Some 2, init_buttons := Some 2\<rparr>) s1 of
                 (s2, f1) \<Rightarrow> (s2, fx @ f1, Returned))
          | Mode_None \<Rightarrow> (s1, fx, Returned))"

definition touchend :: "env \<Rightarrow> touch_event \<Rightarrow> state \<Rightarrow> state \<times> effect list \<times> outcome" where
  "touchend page e s =
     (case checkEvent e s of (ok, s1, fx) \<Rightarrow>
        if \<not> ok then (s1, fx, Returned)
        else
          case mode s1 of
            ZoomPan \<Rightarrow>
              (case dispatchEvent page e mouseup
                      (empty_init\<lparr>init_button := Some 1, init_buttons := Some 4\<rparr>)
                      (s1\<lparr>mode := Mode_None, prevDistance := None\<rparr>) of
                 (s2, f1) \<Rightarrow> (s2, fx @ f1, Returned))
          | Rotate \<Rightarrow>
              (case dispatchEvent page e mouseup
                      (empty_init\<lparr>init_button := Some 2, init_buttons := Some 2\<rparr>)
                      (s1\<lparr>mode := Mode_None\<rparr>) of
                 (s2, f1) \<Rightarrow> (s2, fx @ f1, Returned))
          | PreRotate \<Rightarrow>
              (case dispatchEvent page e mousemove empty_init (s1\<lparr>mode := Mode_None\<rparr>) of
                 (s2, f1) \<Rightarrow>
                   case dispatchEvent page e mousedown empty_init s2 of
                     (s3, f2) \<Rightarrow>
                       case dispatchEvent page e mouseup empty_init s3 of
                         (s4, f3) \<Rightarrow> (s4, fx @ f1 @ f2 @ f3, Returned))
          | PreZoomPan \<Rightarrow> (s1, fx, Returned)
          | Mode_None \<Rightarrow> (s1, fx, Returned))"

subsection \<open>The event loop\<close>

text \<open>
  The platform runs one callback at a time: a touch notification, or a pending timer
  that comes due. A timer that is not pending (it was cleared, or it already ran) never
  runs its callback. An exception ends the callback it was thrown in and nothing else.
\<close>

datatype input = TouchStart touch_event | TouchMove touch_event | TouchEnd touch_event
  | TimerFires nat

definition fireTimer :: "env \<Rightarrow> nat \<Rightarrow> state \<Rightarrow> state \<times> effect list \<times> outcome" where
  "fireTimer page t s =
     (case find (\<lambda>p. timer_id p = t) (timers s) of
        None \<Rightarrow> (s, [], Returned)
      | Some p \<Rightarrow>
          (case contextMenuCallback page (timer_event p)
                  (s\<lparr>timers := filter (\<lambda>q. timer_id q \<noteq> t) (timers s)\<rparr>) of
             (s1, f1) \<Rightarrow> (s1, f1, Returned)))"

fun step :: "env \<Rightarrow> input \<Rightarrow> state \<Rightarrow> state \<times> effect list \<times> outcome" where
  "step page (TouchStart e) s = touchstart page e s"
| "step page (TouchMove e) s = touchmove page e s"
| "step page (TouchEnd e) s = touchend page e s"
| "step page (TimerFires t) s = fireTimer page t s"

fun run :: "state \<Rightarrow> (env \<times> input) list \<Rightarrow> state \<times> effect list" where
  "run s [] = (s, [])"
| "run s ((page, i) # rest) =
     (case step page i s of (s1, f1, r) \<Rightarrow>
        case run s1 rest of (s2, f2) \<Rightarrow> (s2, f1 @ f2))"

subsection \<open>The patched addEventListener\<close>

text \<open>\<open>s.startsWith(p)\<close> of JavaScript strings.\<close>

fun startsWith :: "string \<Rightarrow> string \<Rightarrow> bool" where
  "startsWith s [] = True"
| "startsWith [] (c # cs) = False"
| "startsWith (x # xs) (c # cs) = (x = c \<and> startsWith xs cs)"

text \<open>
  The replacement installed on \<open>EventTarget.prototype\<close>. The original function is a
  parameter: it acts on the platform's listener table \<open>'l\<close> and returns a value. The
  replacement returns \<open>None\<close> (\<open>undefined\<close>) when it does not call it.
\<close>

definition addEventListener ::
  "('t \<Rightarrow> string \<Rightarrow> 'a \<Rightarrow> 'l \<Rightarrow> 'r \<times> 'l) \<Rightarrow> 't \<Rightarrow> string \<Rightarrow> 'a \<Rightarrow> 'l \<Rightarrow> 'r option \<times> 'l" where
  "addEventListener originalAddEventListener this ty args l =
     (if \<not> startsWith ty ''touch''
      then (case originalAddEventListener this ty args l of (r, l1) \<Rightarrow> (Some r, l1))
      else (None, l))"

subsection \<open>Reading a synthesized event\<close>

text \<open>The six coordinates a constructed event reports (absent members are \<open>0\<close>).\<close>

definition ev_coords :: "synth_event \<Rightarrow> touch" where
  "ev_coords ev =
     \<lparr>screenX = (case init_screenX (ev_init ev) of None \<Rightarrow> 0 | Some v \<Rightarrow> v),
      screenY = (case init_screenY (ev_init ev) of None \<Rightarrow> 0 | Some v \<Rightarrow> v),
      clientX = (case init_clientX (ev_init ev) of None \<Rightarrow> 0 | Some v \<Rightarrow> v),
      clientY = (case init_clientY (ev_init ev) of None \<Rightarrow> 0 | Some v \<Rightarrow> v),
      pageX = (case init_pageX (ev_init ev) of None \<Rightarrow> 0 | Some v \<Rightarrow> v),
      pageY = (case init_pageY (ev_init ev) of None \<Rightarrow> 0 | Some v \<Rightarrow> v)\<rparr>"

text \<open>
  The coordinate rule in the specification's words: the mean of the two points, the one
  point, or zero. With more than two points the first two are averaged, as the
  comment in \<open>dispatchEvent\<close> says (``at least two'').
\<close>

definition spec_coords :: "touch list \<Rightarrow> touch" where
  "spec_coords ts =
     (if 2 \<le> length ts then
        \<lparr>screenX = (screenX (ts ! 0) + screenX (ts ! 1)) / 2,
         screenY = (screenY (ts ! 0) + screenY (ts ! 1)) / 2,
         clientX = (clientX (ts ! 0) + clientX (ts ! 1)) / 2,
         clientY = (clientY (ts ! 0) + clientY (ts ! 1)) / 2,
         pageX = (pageX (ts ! 0) + pageX (ts ! 1)) / 2,
         pageY = (pageY (ts ! 0) + pageY (ts ! 1)) / 2\<rparr>
      else if length ts = 1 then ts ! 0
      else \<lparr>screenX = 0, screenY = 0, clientX = 0, clientY = 0, pageX = 0, pageY = 0\<rparr>)"

subsection \<open>Timers: what holds in every reachable state\<close>

text \<open>
  The platform holds no timer but the one whose handle is in \<open>contextMenuTimer\<close>, and
  handles are positive and were handed out before.
\<close>

definition timer_inv :: "state \<Rightarrow> bool" where
  "timer_inv s \<longleftrightarrow>
     0 < next_timer s \<and>
     (\<forall>p \<in> set (timers s). 0 < timer_id p \<and> timer_id p < next_timer s) \<and>
     map timer_id (timers s) = (case contextMenuTimer s of None \<Rightarrow> [] | Some t \<Rightarrow> [t])"

subsection \<open>Concrete inputs\<close>

definition point :: "real \<Rightarrow> real \<Rightarrow> touch" where
  "point x y = \<lparr>screenX = x, screenY = y, clientX = x, clientY = y, pageX = x, pageY = y\<rparr>"

definition on_canvas :: "touch list \<Rightarrow> touch_event" where
  "on_canvas ts = \<lparr>target = Some (EventTarget (Some ''canvas'')), touches = ts\<rparr>"

definition on_element :: "string \<Rightarrow> touch list \<Rightarrow> touch_event" where
  "on_element i ts = \<lparr>target = Some (EventTarget (Some i)), touches = ts\<rparr>"

definition page_with_canvas :: "real \<Rightarrow> env" where
  "page_with_canvas w = \<lparr>getElementById_canvas = Some (Element 0), screen_width = w\<rparr>"

text \<open>A listener table for the original \<open>addEventListener\<close>: it records every registration.\<close>

definition platform_addEventListener ::
  "element \<Rightarrow> string \<Rightarrow> nat \<Rightarrow> (element \<times> string \<times> nat) list \<Rightarrow> unit \<times> (element \<times> string \<times> nat) list" where
  "platform_addEventListener this ty listener l = ((), l @ [(this, ty, listener)])"

text \<open>The types of the events dispatched, in order.\<close>

fun dispatched_types :: "effect list \<Rightarrow> mouse_type list" where
  "dispatched_types [] = []"
| "dispatched_types (PreventDefault # fx) = dispatched_types fx"
| "dispatched_types (Dispatched el ev # fx) = ev_type ev # dispatched_types fx"

section \<open>Basic facts\<close>

lemma hypot_0_right: "hypot x 0 = \<bar>x\<bar>"
  by (simp add: hypot_def)

lemma hypot_0_0: "hypot 0 0 = 0"
  by (simp add: hypot_def)

lemma dispatchEvent_fst:
  "fst (dispatchEvent page e ty ei s) =
     s\<lparr>canvas := (case canvas s of None \<Rightarrow> getElementById_canvas page | Some el \<Rightarrow> Some el)\<rparr>"
  by (simp add: dispatchEvent_def Let_def split: option.splits)

lemma dispatchEvent_fields [simp]:
  "mode (fst (dispatchEvent page e ty ei s)) = mode s"
  "prevDistance (fst (dispatchEvent page e ty ei s)) = prevDistance s"
  "contextMenuTimer (fst (dispatchEvent page e ty ei s)) = contextMenuTimer s"
  "timers (fst (dispatchEvent page e ty ei s)) = timers s"
  "next_timer (fst (dispatchEvent page e ty ei s)) = next_timer s"
  by (simp_all add: dispatchEvent_fst)

lemma timer_inv_dispatchEvent [simp]:
  "timer_inv (fst (dispatchEvent page e ty ei s)) = timer_inv s"
  by (simp add: timer_inv_def)

lemma timer_inv_canvas_mode [simp]:
  "timer_inv (s\<lparr>mode := m\<rparr>) = timer_inv s"
  "timer_inv (s\<lparr>prevDistance := d\<rparr>) = timer_inv s"
  "timer_inv (s\<lparr>canvas := c\<rparr>) = timer_inv s"
  by (simp_all add: timer_inv_def)

lemma checkEvent_next_timer [simp]:
  "next_timer (fst (snd (checkEvent e s))) = next_timer s"
  by (simp add: checkEvent_def clearTimeout_def split: option.splits)

lemma checkEvent_disarms:
  assumes "timer_inv s" "fst (checkEvent e s)"
  shows "timers (fst (snd (checkEvent e s))) = [] \<and>
         contextMenuTimer (fst (snd (checkEvent e s))) = None"
proof (cases "contextMenuTimer s")
  case None
  with assms show ?thesis
    by (auto simp: checkEvent_def timer_inv_def split: if_splits)
next
  case (Some t)
  with assms(1) obtain p where p: "timers s = [p]" "timer_id p = t" "0 < t"
    by (auto simp: timer_inv_def map_eq_Cons_conv)
  with Some assms(2) show ?thesis
    by (auto simp: checkEvent_def clearTimeout_def split: if_splits)
qed

lemma checkEvent_keeps [simp]:
  "mode (fst (snd (checkEvent e s))) = mode s"
  "prevDistance (fst (snd (checkEvent e s))) = prevDistance s"
  "canvas (fst (snd (checkEvent e s))) = canvas s"
  by (simp_all add: checkEvent_def clearTimeout_def split: option.splits)

lemma checkEvent_effects:
  "snd (snd (checkEvent e s)) = (if fst (checkEvent e s) then [PreventDefault] else [])"
  by (simp add: checkEvent_def)

lemma checkEvent_rejects:
  "\<not> fst (checkEvent e s) \<Longrightarrow> checkEvent e s = (False, s, [])"
  by (auto simp: checkEvent_def split: if_splits)

lemma timer_inv_contextMenuCallback:
  "timer_inv (s\<lparr>contextMenuTimer := None\<rparr>) \<Longrightarrow> timer_inv (fst (contextMenuCallback page e s))"
  by (simp add: contextMenuCallback_def Let_def case_prod_beta) (simp add: timer_inv_def)

lemma timer_inv_init: "timer_inv init_state"
  by (simp add: timer_inv_def init_state_def)

lemma timer_inv_touchstart:
  assumes "timer_inv s"
  shows "timer_inv (fst (touchstart page e s))"
proof (cases "fst (checkEvent e s)")
  case False
  then show ?thesis
    using assms by (simp add: touchstart_def checkEvent_rejects)
next
  case True
  with assms show ?thesis
    using checkEvent_disarms [OF assms True]
    by (simp add: touchstart_def case_prod_beta Let_def setTimeout_def timer_inv_def)
qed

lemma timer_inv_accepted:
  assumes "timer_inv s" "fst (checkEvent e s)"
  shows "timer_inv (fst (snd (checkEvent e s)))"
  using checkEvent_disarms [OF assms] assms(1)
  by (simp add: timer_inv_def)

lemma timer_inv_touchmove:
  assumes "timer_inv s"
  shows "timer_inv (fst (touchmove page e s))"
proof (cases "fst (checkEvent e s)")
  case False
  then show ?thesis
    using assms by (simp add: touchmove_def checkEvent_rejects)
next
  case True
  then show ?thesis
    using timer_inv_accepted [OF assms True]
    by (simp add: touchmove_def case_prod_beta Let_def split: Mode.splits list.splits option.splits)
qed

lemma timer_inv_touchend:
  assumes "timer_inv s"
  shows "timer_inv (fst (touchend page e s))"
proof (cases "fst (checkEvent e s)")
  case False
  then show ?thesis
    using assms by (simp add: touchend_def checkEvent_rejects)
next
  case True
  then show ?thesis
    using timer_inv_accepted [OF assms True]
    by (simp add: touchend_def case_prod_beta Let_def split: Mode.splits)
qed

lemma timer_inv_fireTimer:
  assumes "timer_inv s"
  shows "timer_inv (fst (fireTimer page t s))"
proof (cases "find (\<lambda>p. timer_id p = t) (timers s)")
  case None
  with assms show ?thesis by (simp add: fireTimer_def)
next
  case (Some p)
  have "timer_inv (s\<lparr>timers := filter (\<lambda>q. timer_id q \<noteq> t) (timers s), contextMenuTimer := None\<rparr>)"
  proof (cases "contextMenuTimer s")
    case None
    with assms Some show ?thesis by (simp add: timer_inv_def)
  next
    case (Some u)
    with assms obtain q where "timers s = [q]" "timer_id q = u"
      by (auto simp: timer_inv_def map_eq_Cons_conv)
    with assms \<open>find (\<lambda>p. timer_id p = t) (timers s) = Some p\<close> show ?thesis
      by (auto simp: timer_inv_def split: if_splits)
  qed
  then show ?thesis
    using Some timer_inv_contextMenuCallback [of "s\<lparr>timers := filter (\<lambda>q. timer_id q \<noteq> t) (timers s)\<rparr>" page "timer_event p"]
    by (simp add: fireTimer_def case_prod_beta)
qed

lemma timer_inv_step: "timer_inv s \<Longrightarrow> timer_inv (fst (step page i s))"
  by (cases i) (simp_all add: timer_inv_touchstart timer_inv_touchmove timer_inv_touchend timer_inv_fireTimer)

lemma timer_inv_run: "timer_inv s \<Longrightarrow> timer_inv (fst (run s ins))"
proof (induction ins arbitrary: s)
  case Nil
  then show ?case by simp
next
  case (Cons x ins)
  obtain page i where x: "x = (page, i)" by (cases x)
  from Cons.prems have "timer_inv (fst (step page i s))" by (rule timer_inv_step)
  then have "timer_inv (fst (run (fst (step page i s)) ins))" by (rule Cons.IH)
  then show ?case by (simp add: x case_prod_beta)
qed

lemma dispatchEvent_snd:
  "snd (dispatchEvent page e ty ei s) =
     (case (case canvas s of None \<Rightarrow> getElementById_canvas page | Some el \<Rightarrow> Some el) of
        None \<Rightarrow> []
      | Some el \<Rightarrow>
          [Dispatched el
             \<lparr>ev_ctor = (if ty = mousewheel then WheelEvent else MouseEvent), ev_type = ty,
              ev_init = (spread (touch_init (touches e)) ei)\<lparr>init_bubbles := Some True\<rparr>\<rparr>])"
  by (simp add: dispatchEvent_def Let_def split: option.splits)

lemma dispatchEvent_bubbles:
  "Dispatched el ev \<in> set (snd (dispatchEvent page e ty ei s)) \<Longrightarrow> ev_bubbles ev"
  by (auto simp: dispatchEvent_snd ev_bubbles_def split: option.splits)

lemma dispatchEvent_type:
  "Dispatched el ev \<in> set (snd (dispatchEvent page e ty ei s)) \<Longrightarrow> ev_type ev = ty"
  by (auto simp: dispatchEvent_snd split: option.splits)

lemma ev_coords_touch_init:
  assumes "init_screenX ei = None" "init_screenY ei = None" "init_clientX ei = None"
    "init_clientY ei = None" "init_pageX ei = None" "init_pageY ei = None"
  shows "ev_coords \<lparr>ev_ctor = c, ev_type = ty,
            ev_init = (spread (touch_init ts) ei)\<lparr>init_bubbles := b\<rparr>\<rparr> = spec_coords ts"
proof (cases ts rule: touch_init.cases)
  case (1 a b rest)
  with assms show ?thesis
    by (simp add: ev_coords_def spec_coords_def spread_def override_def empty_init_def)
next
  case (2 a)
  with assms show ?thesis
    by (simp add: ev_coords_def spec_coords_def spread_def override_def empty_init_def)
next
  case 3
  with assms show ?thesis
    by (simp add: ev_coords_def spec_coords_def spread_def override_def empty_init_def)
qed

lemma dispatchEvent_coords:
  assumes "Dispatched el ev \<in> set (snd (dispatchEvent page e ty ei s))"
    and "(init_screenX ei, init_screenY ei, init_clientX ei, init_clientY ei, init_pageX ei,
          init_pageY ei) = (None, None, None, None, None, None)"
  shows "ev_coords ev = spec_coords (touches e)"
  using assms by (auto simp: dispatchEvent_snd ev_coords_touch_init split: option.splits)

lemma touchmove_coords:
  "Dispatched el ev \<in> set (fst (snd (touchmove page e s))) \<Longrightarrow>
     ev_bubbles ev \<and> ev_coords ev = spec_coords (touches e)"
  by (auto simp: touchmove_def case_prod_beta Let_def checkEvent_effects empty_init_def
      split: if_splits Mode.splits list.splits option.splits
      dest: dispatchEvent_bubbles dispatchEvent_coords)

lemma touchend_coords:
  "Dispatched el ev \<in> set (fst (snd (touchend page e s))) \<Longrightarrow>
     ev_bubbles ev \<and> ev_coords ev = spec_coords (touches e)"
  by (auto simp: touchend_def case_prod_beta Let_def checkEvent_effects empty_init_def
      split: if_splits Mode.splits
      dest: dispatchEvent_bubbles dispatchEvent_coords)

lemma contextMenuCallback_coords:
  "Dispatched el ev \<in> set (snd (contextMenuCallback page e s)) \<Longrightarrow>
     ev_bubbles ev \<and> ev_coords ev = spec_coords (touches e)"
  by (auto simp: contextMenuCallback_def case_prod_beta Let_def empty_init_def
      dest: dispatchEvent_bubbles dispatchEvent_coords)

lemma touchstart_effects:
  "fst (snd (touchstart page e s)) = (if fst (checkEvent e s) then [PreventDefault] else [])"
  by (simp add: touchstart_def case_prod_beta Let_def checkEvent_effects setTimeout_def)

lemma startsWith_iff: "startsWith s p \<longleftrightarrow> (\<exists>r. s = p @ r)"
  by (induction s p rule: startsWith.induct) auto

lemma checkEvent_accepts_iff:
  "fst (checkEvent e s) \<longleftrightarrow> \<not> (\<exists>i. target e = Some (EventTarget (Some i)) \<and> i \<noteq> ''canvas'')"
proof (cases "target e")
  case None
  then show ?thesis by (simp add: checkEvent_def)
next
  case (Some t)
  then show ?thesis by (cases t) (simp add: checkEvent_def split: option.splits)
qed

lemma reachable_timer_inv: "timer_inv (fst (run init_state ins))"
  by (rule timer_inv_run [OF timer_inv_init])

lemma spread_empty [simp]: "spread i empty_init = i"
  by (simp add: spread_def override_def empty_init_def)

lemma dispatchEvent_canvas:
  "canvas (fst (dispatchEvent page e ty ei s))
     = (case canvas s of None \<Rightarrow> getElementById_canvas page | Some el \<Rightarrow> Some el)"
  by (simp add: dispatchEvent_fst)

lemma touchstart_accepted:
  assumes "timer_inv s" "fst (checkEvent e s)"
  shows "touchstart page e s =
     (s\<lparr>mode := (if 2 \<le> length (touches e) then PreZoomPan else PreRotate),
        contextMenuTimer := Some (next_timer s),
        timers := [\<lparr>timer_id = next_timer s, timer_delay = 1000, timer_event = e\<rparr>],
        next_timer := Suc (next_timer s)\<rparr>, [PreventDefault], Returned)"
proof -
  obtain s1 where c: "checkEvent e s = (True, s1, [PreventDefault])"
    using assms(2) checkEvent_effects [of e s] by (cases "checkEvent e s") auto
  have "timers s1 = []" "contextMenuTimer s1 = None" "next_timer s1 = next_timer s"
    "mode s1 = mode s" "prevDistance s1 = prevDistance s" "canvas s1 = canvas s"
    using checkEvent_disarms [OF assms] checkEvent_keeps [of e s] checkEvent_next_timer [of e s]
    by (simp_all add: c)
  then have "s1 = s\<lparr>timers := [], contextMenuTimer := None\<rparr>"
    by (cases s1, cases s) simp
  then show ?thesis
    by (simp add: touchstart_def c setTimeout_def CONTEXT_MENU_TIMEOUT_def)
qed

lemma contextMenuCallback_fields [simp]:
  "timers (fst (contextMenuCallback page e s)) = timers s"
  "next_timer (fst (contextMenuCallback page e s)) = next_timer s"
  "prevDistance (fst (contextMenuCallback page e s)) = prevDistance s"
  "mode (fst (contextMenuCallback page e s)) = Mode_None"
  "contextMenuTimer (fst (contextMenuCallback page e s)) = None"
  by (simp_all add: contextMenuCallback_def Let_def case_prod_beta)

lemma checkEvent_timers_subset:
  "set (timers (fst (snd (checkEvent e s)))) \<subseteq> set (timers s)"
  by (auto simp: checkEvent_def clearTimeout_def split: option.splits)

lemma touchmove_timers [simp]:
  "timers (fst (touchmove page e s)) = timers (fst (snd (checkEvent e s)))"
  "next_timer (fst (touchmove page e s)) = next_timer s"
  by (simp_all add: touchmove_def case_prod_beta Let_def
      split: Mode.splits list.splits option.splits)

lemma touchend_timers [simp]:
  "timers (fst (touchend page e s)) = timers (fst (snd (checkEvent e s)))"
  "next_timer (fst (touchend page e s)) = next_timer s"
  by (simp_all add: touchend_def case_prod_beta Let_def split: Mode.splits)

lemma touchstart_timers:
  "p \<in> set (timers (fst (touchstart page e s))) \<Longrightarrow>
     p \<in> set (timers s) \<or> timer_id p = next_timer s"
  using checkEvent_timers_subset [of e s]
  by (auto simp: touchstart_def case_prod_beta Let_def setTimeout_def checkEvent_rejects
      split: if_splits)

lemma touchstart_next_timer: "next_timer s \<le> next_timer (fst (touchstart page e s))"
  by (simp add: touchstart_def case_prod_beta Let_def setTimeout_def)

lemma fireTimer_timers:
  "set (timers (fst (fireTimer page t s))) \<subseteq> set (timers s)"
  "next_timer (fst (fireTimer page t s)) = next_timer s"
  by (auto simp: fireTimer_def case_prod_beta split: option.splits)

lemma step_timers:
  "p \<in> set (timers (fst (step page i s))) \<Longrightarrow> p \<in> set (timers s) \<or> timer_id p = next_timer s"
  by (cases i)
    (auto dest: touchstart_timers subsetD [OF checkEvent_timers_subset]
       subsetD [OF fireTimer_timers(1)])

lemma step_next_timer: "next_timer s \<le> next_timer (fst (step page i s))"
  by (cases i) (simp_all add: touchstart_next_timer fireTimer_timers)

lemma cleared_timer_stays_cleared:
  "t < next_timer s \<Longrightarrow> t \<notin> timer_id ` set (timers s) \<Longrightarrow>
     t < next_timer (fst (run s ins)) \<and> t \<notin> timer_id ` set (timers (fst (run s ins)))"
proof (induction ins arbitrary: s)
  case Nil
  then show ?case by simp
next
  case (Cons x ins)
  obtain page i where x: "x = (page, i)" by (cases x)
  have a: "t < next_timer (fst (step page i s))"
    using Cons.prems(1) step_next_timer [of s page i] by simp
  have b: "t \<notin> timer_id ` set (timers (fst (step page i s)))"
    using Cons.prems by (auto dest!: step_timers)
  from Cons.IH [OF a b] show ?case by (simp add: x case_prod_beta)
qed

lemma fireTimer_not_pending:
  "t \<notin> timer_id ` set (timers s) \<Longrightarrow> fireTimer page t s = (s, [], Returned)"
proof -
  assume "t \<notin> timer_id ` set (timers s)"
  then have "find (\<lambda>p. timer_id p = t) (timers s) = None"
    by (auto simp: find_None_iff)
  then show ?thesis by (simp add: fireTimer_def)
qed

text \<open>Unfolding these evaluates the handlers on concrete inputs.\<close>

lemmas eval_defs = touchstart_def touchmove_def touchend_def fireTimer_def checkEvent_def
  dispatchEvent_def contextMenuCallback_def setTimeout_def clearTimeout_def
  init_state_def on_canvas_def on_element_def point_def page_with_canvas_def spread_def
  override_def empty_init_def CONTEXT_MENU_TIMEOUT_def ZOOM_SENSITIVITY_def divide_number_def
  hypot_0_right hypot_0_0

section \<open>The pinch memory\<close>

text \<open>In a reachable state a timer is pending only between a \<open>touchstart\<close> and the next
  accepted notification, so only in the two pending modes.\<close>

lemma pending_timer_mode:
  "timers (fst (run init_state ins)) \<noteq> [] \<Longrightarrow>
     mode (fst (run init_state ins)) = PreRotate \<or> mode (fst (run init_state ins)) = PreZoomPan"
proof -
  have st: "timer_inv (fst (step page i s)) \<and>
      (timers (fst (step page i s)) \<noteq> [] \<longrightarrow>
         mode (fst (step page i s)) = PreRotate \<or> mode (fst (step page i s)) = PreZoomPan)"
    if inv: "timer_inv s" and q: "timers s \<noteq> [] \<longrightarrow> mode s = PreRotate \<or> mode s = PreZoomPan"
    for page i s
  proof (rule conjI [OF timer_inv_step [OF inv]], cases i)
    case (TouchStart e)
    show "timers (fst (step page i s)) \<noteq> [] \<longrightarrow>
         mode (fst (step page i s)) = PreRotate \<or> mode (fst (step page i s)) = PreZoomPan"
    proof (cases "fst (checkEvent e s)")
      case True
      then show ?thesis by (simp add: TouchStart touchstart_accepted [OF inv])
    next
      case False
      with q show ?thesis by (simp add: TouchStart touchstart_def checkEvent_rejects)
    qed
  next
    case (TouchMove e)
    show "timers (fst (step page i s)) \<noteq> [] \<longrightarrow>
         mode (fst (step page i s)) = PreRotate \<or> mode (fst (step page i s)) = PreZoomPan"
    proof (cases "fst (checkEvent e s)")
      case True
      then show ?thesis using checkEvent_disarms [OF inv True] by (simp add: TouchMove)
    next
      case False
      with q show ?thesis by (simp add: TouchMove touchmove_def checkEvent_rejects)
    qed
  next
    case (TouchEnd e)
    show "timers (fst (step page i s)) \<noteq> [] \<longrightarrow>
         mode (fst (step page i s)) = PreRotate \<or> mode (fst (step page i s)) = PreZoomPan"
    proof (cases "fst (checkEvent e s)")
      case True
      then show ?thesis using checkEvent_disarms [OF inv True] by (simp add: TouchEnd)
    next
      case False
      with q show ?thesis by (simp add: TouchEnd touchend_def checkEvent_rejects)
    qed
  next
    case (TimerFires t)
    show "timers (fst (step page i s)) \<noteq> [] \<longrightarrow>
         mode (fst (step page i s)) = PreRotate \<or> mode (fst (step page i s)) = PreZoomPan"
    proof (cases "find (\<lambda>p. timer_id p = t) (timers s)")
      case None
      with q show ?thesis by (simp add: TimerFires fireTimer_def)
    next
      case (Some p)
      then have "p \<in> set (timers s)" "timer_id p = t"
        by (auto simp: find_Some_iff)
      moreover from inv have m: "map timer_id (timers s)
          = (case contextMenuTimer s of None \<Rightarrow> [] | Some u \<Rightarrow> [u])"
        by (simp add: timer_inv_def)
      have "length (map timer_id (timers s)) \<le> 1"
        unfolding m by (simp split: option.splits)
      then have "length (timers s) \<le> 1" by simp
      ultimately have "timers s = [p]"
        by (cases "timers s") auto
      with \<open>timer_id p = t\<close> Some show ?thesis
        by (simp add: TimerFires fireTimer_def case_prod_beta)
    qed
  qed
  have "timer_inv (fst (run s ins)) \<and>
      (timers (fst (run s ins)) \<noteq> [] \<longrightarrow>
         mode (fst (run s ins)) = PreRotate \<or> mode (fst (run s ins)) = PreZoomPan)"
    if "timer_inv s" and "timers s \<noteq> [] \<longrightarrow> mode s = PreRotate \<or> mode s = PreZoomPan"
    for s
    using that
  proof (induction ins arbitrary: s)
    case Nil
    then show ?case by simp
  next
    case (Cons x ins)
    obtain page i where x: "x = (page, i)" by (cases x)
    from st [OF Cons.prems, of page i] Cons.IH [of "fst (step page i s)"]
    show ?case by (simp add: x case_prod_beta)
  qed
  from this [of init_state] show "timers (fst (run init_state ins)) \<noteq> [] \<Longrightarrow>
     mode (fst (run init_state ins)) = PreRotate \<or> mode (fst (run init_state ins)) = PreZoomPan"
    by (simp add: timer_inv_init) (simp add: init_state_def)
qed

text \<open>
  ``No recorded distance outside \<open>ZoomPan\<close>'' is kept by every step but one: an accepted
  \<open>touchstart\<close> while the mode is \<open>ZoomPan\<close>.
\<close>

lemma pinch_memory_step:
  assumes "mode s \<noteq> ZoomPan \<longrightarrow> prevDistance s = None"
    and "timers s \<noteq> [] \<longrightarrow> mode s \<noteq> ZoomPan"
    and "\<forall>e. i = TouchStart e \<longrightarrow> \<not> (fst (checkEvent e s) \<and> mode s = ZoomPan)"
  shows "mode (fst (step page i s)) \<noteq> ZoomPan \<longrightarrow> prevDistance (fst (step page i s)) = None"
proof (cases i)
  case (TouchStart e)
  with assms show ?thesis
    by (auto simp: touchstart_def case_prod_beta Let_def setTimeout_def checkEvent_rejects
        split: if_splits)
next
  case (TouchMove e)
  with assms(1) show ?thesis
    by (auto simp: touchmove_def case_prod_beta Let_def checkEvent_rejects
        split: if_splits Mode.splits list.splits option.splits)
next
  case (TouchEnd e)
  with assms(1) show ?thesis
    by (auto simp: touchend_def case_prod_beta Let_def checkEvent_rejects
        split: if_splits Mode.splits)
next
  case (TimerFires t)
  show ?thesis
  proof (cases "find (\<lambda>p. timer_id p = t) (timers s)")
    case None
    with assms(1) show ?thesis by (simp add: TimerFires fireTimer_def)
  next
    case (Some p)
    then have "timers s \<noteq> []" by auto
    with assms(1,2) Some show ?thesis
      by (simp add: TimerFires fireTimer_def case_prod_beta)
  qed
qed

text \<open>
  A move in \<open>ZoomPan\<close> with two touch points records their Euclidean distance on the
  screen. It dispatches a \<open>mousemove\<close>, and after it a wheel event exactly when a
  nonzero distance was recorded before; on a screen of nonzero width its \<open>deltaY\<close> is
  \<open>(distance - prevDistance) / width * 10000\<close>.
\<close>

lemma pinch_move_wheel:
  assumes "fst (checkEvent e s)" and "mode s = ZoomPan" and "touches e = a # b # rest"
    and "(case canvas s of None \<Rightarrow> getElementById_canvas page | Some el \<Rightarrow> Some el) = Some c"
  shows "prevDistance (fst (touchmove page e s))
      = Some (hypot (screenX a - screenX b) (screenY a - screenY b)) \<and>
    mode (fst (touchmove page e s)) = ZoomPan \<and>
    (prevDistance s = None \<longrightarrow> dispatched_types (fst (snd (touchmove page e s))) = [mousemove]) \<and>
    (\<forall>p. prevDistance s = Some p \<and> p \<noteq> 0 \<and> screen_width page \<noteq> 0 \<longrightarrow>
       fst (snd (touchmove page e s))
         = [PreventDefault,
            Dispatched c
              \<lparr>ev_ctor = MouseEvent, ev_type = mousemove,
               ev_init = (touch_init (touches e))
                 \<lparr>init_button := Some 2, init_bubbles := Some True\<rparr>\<rparr>,
            Dispatched c
              \<lparr>ev_ctor = WheelEvent, ev_type = mousewheel,
               ev_init = (touch_init (touches e))
                 \<lparr>init_deltaY :=
                    Some (Finite ((hypot (screenX a - screenX b) (screenY a - screenY b) - p)
                                    / screen_width page * 10000)),
                  init_bubbles := Some True\<rparr>\<rparr>])"
  using assms
  by (auto simp: touchmove_def case_prod_beta Let_def checkEvent_effects dispatchEvent_snd
      dispatchEvent_canvas spread_def override_def empty_init_def divide_number_def
      ZOOM_SENSITIVITY_def split: option.splits)

section \<open>Touch-start during a pinch\<close>

text \<open>
  Claim C1. The handler of \<open>touchstart\<close> does not reset \<open>prevDistance\<close>. One finger rests
  on a toolbar (its notifications are rejected) while a second one on the canvas pinches
  against it and the distance 100 is recorded. The first finger is lifted and put down on
  the canvas: this \<open>touchstart\<close> arrives in \<open>ZoomPan\<close> and leaves the mode \<open>PreZoomPan\<close>
  with the distance 100 still recorded and a timer armed. When that timer fires, the
  mode is \<open>None\<close> and the distance 100 is still recorded.
\<close>

theorem touchstart_keeps_pinch_memory:
  "fst (run init_state
      [(page_with_canvas 1920, TouchStart (on_element ''toolbar'' [point 0 0])),
       (page_with_canvas 1920, TouchStart (on_canvas [point 0 0, point 100 0])),
       (page_with_canvas 1920, TouchMove (on_canvas [point 0 0, point 100 0])),
       (page_with_canvas 1920, TouchMove (on_canvas [point 0 0, point 100 0])),
       (page_with_canvas 1920, TouchEnd (on_element ''toolbar'' [point 100 0])),
       (page_with_canvas 1920, TouchStart (on_canvas [point 100 0, point 0 0]))])
     = \<lparr>canvas = Some (Element 0), mode = PreZoomPan, prevDistance = Some 100,
        contextMenuTimer = Some 2,
        timers = [\<lparr>timer_id = 2, timer_delay = 1000,
                   timer_event = on_canvas [point 100 0, point 0 0]\<rparr>],
        next_timer = 3\<rparr> \<and>
   fst (run init_state
      [(page_with_canvas 1920, TouchStart (on_element ''toolbar'' [point 0 0])),
       (page_with_canvas 1920, TouchStart (on_canvas [point 0 0, point 100 0])),
       (page_with_canvas 1920, TouchMove (on_canvas [point 0 0, point 100 0])),
       (page_with_canvas 1920, TouchMove (on_canvas [point 0 0, point 100 0])),
       (page_with_canvas 1920, TouchEnd (on_element ''toolbar'' [point 100 0])),
       (page_with_canvas 1920, TouchStart (on_canvas [point 100 0, point 0 0])),
       (page_with_canvas 1920, TimerFires 2)])
     = \<lparr>canvas = Some (Element 0), mode = Mode_None, prevDistance = Some 100,
        contextMenuTimer = None, timers = [], next_timer = 3\<rparr>"
  by (simp add: eval_defs)

section \<open>The pinch scenario\<close>

text \<open>
  Claim C2, as stated: after a \<open>touchstart\<close> with points at (0,0) and (100,0), a
  \<open>touchmove\<close> to (0,0) and (80,0) dispatches a \<open>mousedown\<close> and nothing else; no
  \<open>mousemove\<close> and no wheel event.
\<close>

theorem first_pinch_move_only_down:
  "snd (run init_state
      [(page_with_canvas 1920, TouchStart (on_canvas [point 0 0, point 100 0])),
       (page_with_canvas 1920, TouchMove (on_canvas [point 0 0, point 80 0]))])
     = [PreventDefault, PreventDefault,
        Dispatched (Element 0)
          \<lparr>ev_ctor = MouseEvent, ev_type = mousedown,
           ev_init = \<lparr>init_screenX = Some 40, init_screenY = Some 0, init_clientX = Some 40,
             init_clientY = Some 0, init_pageX = Some 40, init_pageY = Some 0,
             init_button = Some 1, init_buttons = Some 4, init_deltaY = None,
             init_bubbles = Some True\<rparr>\<rparr>] \<and>
   dispatched_types (snd (run init_state
      [(page_with_canvas 1920, TouchStart (on_canvas [point 0 0, point 100 0])),
       (page_with_canvas 1920, TouchMove (on_canvas [point 0 0, point 80 0]))]))
     = [mousedown]"
  by (simp add: eval_defs)

text \<open>
  Claim C2, amended. On a screen of positive width, after a \<open>touchstart\<close> with points at
  (0,0) and (100,0): a first \<open>touchmove\<close> to (0,0) and (80,0) dispatches only a
  \<open>mousedown\<close> with \<open>button\<close> 1 and \<open>buttons\<close> 4 and records no distance. When instead two
  moves at (0,0) and (100,0) come first (they dispatch the \<open>mousedown\<close> and a \<open>mousemove\<close>,
  and the second records the distance 100), the move to (0,0) and (80,0) dispatches a
  \<open>mousemove\<close> and a wheel event whose \<open>deltaY\<close> is \<open>(80 - 100) / width * 10000\<close>, which
  is negative.
\<close>

theorem pinch_scenario:
  assumes "0 < w"
  shows "snd (run init_state
      [(page_with_canvas w, TouchStart (on_canvas [point 0 0, point 100 0])),
       (page_with_canvas w, TouchMove (on_canvas [point 0 0, point 80 0]))])
     = [PreventDefault, PreventDefault,
        Dispatched (Element 0)
          \<lparr>ev_ctor = MouseEvent, ev_type = mousedown,
           ev_init = \<lparr>init_screenX = Some 40, init_screenY = Some 0, init_clientX = Some 40,
             init_clientY = Some 0, init_pageX = Some 40, init_pageY = Some 0,
             init_button = Some 1, init_buttons = Some 4, init_deltaY = None,
             init_bubbles = Some True\<rparr>\<rparr>] \<and>
   prevDistance (fst (run init_state
      [(page_with_canvas w, TouchStart (on_canvas [point 0 0, point 100 0])),
       (page_with_canvas w, TouchMove (on_canvas [point 0 0, point 80 0]))])) = None \<and>
   dispatched_types (snd (run init_state
      [(page_with_canvas w, TouchStart (on_canvas [point 0 0, point 100 0])),
       (page_with_canvas w, TouchMove (on_canvas [point 0 0, point 100 0])),
       (page_with_canvas w, TouchMove (on_canvas [point 0 0, point 100 0]))]))
     = [mousedown, mousemove] \<and>
   fst (snd (step (page_with_canvas w) (TouchMove (on_canvas [point 0 0, point 80 0]))
     (fst (run init_state
      [(page_with_canvas w, TouchStart (on_canvas [point 0 0, point 100 0])),
       (page_with_canvas w, TouchMove (on_canvas [point 0 0, point 100 0])),
       (page_with_canvas w, TouchMove (on_canvas [point 0 0, point 100 0]))]))))
     = [PreventDefault,
        Dispatched (Element 0)
          \<lparr>ev_ctor = MouseEvent, ev_type = mousemove,
           ev_init = \<lparr>init_screenX = Some 40, init_screenY = Some 0, init_clientX = Some 40,
             init_clientY = Some 0, init_pageX = Some 40, init_pageY = Some 0,
             init_button = Some 2, init_buttons = None, init_deltaY = None,
             init_bubbles = Some True\<rparr>\<rparr>,
        Dispatched (Element 0)
          \<lparr>ev_ctor = WheelEvent, ev_type = mousewheel,
           ev_init = \<lparr>init_screenX = Some 40, init_screenY = Some 0, init_clientX = Some 40,
             init_clientY = Some 0, init_pageX = Some 40, init_pageY = Some 0,
             init_button = None, init_buttons = None,
             init_deltaY = Some (Finite ((80 - 100) / w * 10000)),
             init_bubbles = Some True\<rparr>\<rparr>] \<and>
   (80 - 100) / w * 10000 < 0"
  using assms by (simp add: eval_defs)

theorem pinch_scenario_witness:
  "(0::real) < 1920 \<and>
   fst (snd (step (page_with_canvas 1920) (TouchMove (on_canvas [point 0 0, point 80 0]))
     (fst (run init_state
      [(page_with_canvas 1920, TouchStart (on_canvas [point 0 0, point 100 0])),
       (page_with_canvas 1920, TouchMove (on_canvas [point 0 0, point 100 0])),
       (page_with_canvas 1920, TouchMove (on_canvas [point 0 0, point 100 0]))]))))
     = [PreventDefault,
        Dispatched (Element 0)
          \<lparr>ev_ctor = MouseEvent, ev_type = mousemove,
           ev_init = \<lparr>init_screenX = Some 40, init_screenY = Some 0, init_clientX = Some 40,
             init_clientY = Some 0, init_pageX = Some 40, init_pageY = Some 0,
             init_button = Some 2, init_buttons = None, init_deltaY = None,
             init_bubbles = Some True\<rparr>\<rparr>,
        Dispatched (Element 0)
          \<lparr>ev_ctor = WheelEvent, ev_type = mousewheel,
           ev_init = \<lparr>init_screenX = Some 40, init_screenY = Some 0, init_clientX = Some 40,
             init_clientY = Some 0, init_pageX = Some 40, init_pageY = Some 0,
             init_button = None, init_buttons = None,
             init_deltaY = Some (Finite (- (625 / 6))),
             init_bubbles = Some True\<rparr>\<rparr>]"
proof -
  have h: "(0::real) < 1920" by simp
  show ?thesis
    using pinch_scenario [OF h] by simp
qed

section \<open>A wheel event on the first pinch move\<close>

text \<open>
  Claim C3. One finger rests on a toolbar while a second one on the canvas pinches
  against it and the distance 100 is recorded; the first finger is lifted and put down on
  the canvas (\<open>touchstart\<close> in \<open>ZoomPan\<close>), and both fingers are lifted. The mode is then
  \<open>PreZoomPan\<close> and the distance 100 is still recorded. In the next gesture, two fingers
  80 apart, the first move enters \<open>ZoomPan\<close> with a \<open>mousedown\<close>, and the second move,
  the first one handled in \<open>ZoomPan\<close>, already dispatches a wheel event: its \<open>deltaY\<close> is
  \<open>(80 - 100) / 1920 * 10000\<close>, computed against the distance of the gesture before.
\<close>

theorem wheel_on_first_pinch_move:
  "fst (run init_state
      [(page_with_canvas 1920, TouchStart (on_element ''toolbar'' [point 0 0])),
       (page_with_canvas 1920, TouchStart (on_canvas [point 0 0, point 100 0])),
       (page_with_canvas 1920, TouchMove (on_canvas [point 0 0, point 100 0])),
       (page_with_canvas 1920, TouchMove (on_canvas [point 0 0, point 100 0])),
       (page_with_canvas 1920, TouchEnd (on_element ''toolbar'' [point 100 0])),
       (page_with_canvas 1920, TouchStart (on_canvas [point 100 0, point 0 0])),
       (page_with_canvas 1920, TouchEnd (on_canvas [point 100 0])),
       (page_with_canvas 1920, TouchEnd (on_canvas []))])
     = \<lparr>canvas = Some (Element 0), mode = PreZoomPan, prevDistance = Some 100,
        contextMenuTimer = None, timers = [], next_timer = 3\<rparr> \<and>
   run \<lparr>canvas = Some (Element 0), mode = PreZoomPan, prevDistance = Some 100,
        contextMenuTimer = None, timers = [], next_timer = 3\<rparr>
      [(page_with_canvas 1920, TouchStart (on_canvas [point 0 0, point 80 0])),
       (page_with_canvas 1920, TouchMove (on_canvas [point 0 0, point 80 0]))]
     = (\<lparr>canvas = Some (Element 0), mode = ZoomPan, prevDistance = Some 100,
         contextMenuTimer = None, timers = [], next_timer = 4\<rparr>,
        [PreventDefault, PreventDefault,
         Dispatched (Element 0)
          \<lparr>ev_ctor = MouseEvent, ev_type = mousedown,
           ev_init = \<lparr>init_screenX = Some 40, init_screenY = Some 0, init_clientX = Some 40,
             init_clientY = Some 0, init_pageX = Some 40, init_pageY = Some 0,
             init_button = Some 1, init_buttons = Some 4, init_deltaY = None,
             init_bubbles = Some True\<rparr>\<rparr>]) \<and>
   step (page_with_canvas 1920) (TouchMove (on_canvas [point 0 0, point 80 0]))
     \<lparr>canvas = Some (Element 0), mode = ZoomPan, prevDistance = Some 100,
      contextMenuTimer = None, timers = [], next_timer = 4\<rparr>
     = (\<lparr>canvas = Some (Element 0), mode = ZoomPan, prevDistance = Some 80,
         contextMenuTimer = None, timers = [], next_timer = 4\<rparr>,
        [PreventDefault,
         Dispatched (Element 0)
          \<lparr>ev_ctor = MouseEvent, ev_type = mousemove,
           ev_init = \<lparr>init_screenX = Some 40, init_screenY = Some 0, init_clientX = Some 40,
             init_clientY = Some 0, init_pageX = Some 40, init_pageY = Some 0,
             init_button = Some 2, init_buttons = None, init_deltaY = None,
             init_bubbles = Some True\<rparr>\<rparr>,
         Dispatched (Element 0)
          \<lparr>ev_ctor = WheelEvent, ev_type = mousewheel,
           ev_init = \<lparr>init_screenX = Some 40, init_screenY = Some 0, init_clientX = Some 40,
             init_clientY = Some 0, init_pageX = Some 40, init_pageY = Some 0,
             init_button = None, init_buttons = None,
             init_deltaY = Some (Finite (- (625 / 6))),
             init_bubbles = Some True\<rparr>\<rparr>],
        Returned)"
  by (simp add: eval_defs)

section \<open>Long press\<close>

text \<open>
  Claim C4. In any reachable state, an accepted \<open>touchstart\<close> with one touch point
  dispatches nothing and arms one timer of 1000 ms. When that timer fires before any
  other accepted notification, and the canvas element can be found, exactly two events
  are dispatched on it: a \<open>mousedown\<close> and then a \<open>mouseup\<close>, both with \<open>button\<close> 2 and
  \<open>buttons\<close> 2 and both at the coordinates of the touch point; the mode is \<open>None\<close> again,
  no timer is left, and the \<open>touchend\<close> that follows dispatches nothing, so there is no
  quick-tap click.
\<close>

theorem long_press_context_menu:
  assumes "s = fst (run init_state ins)"
    and "fst (checkEvent e s)"
    and "touches e = [a]"
    and "(case canvas s of None \<Rightarrow> getElementById_canvas page2 | Some el \<Rightarrow> Some el) = Some c"
    and "fst (checkEvent e2 s)"
  shows "fst (snd (touchstart page e s)) = [PreventDefault] \<and>
    timers (fst (touchstart page e s))
      = [\<lparr>timer_id = next_timer s, timer_delay = 1000, timer_event = e\<rparr>] \<and>
    fst (snd (step page2 (TimerFires (next_timer s)) (fst (touchstart page e s))))
      = [Dispatched c
           \<lparr>ev_ctor = MouseEvent, ev_type = mousedown,
            ev_init = \<lparr>init_screenX = Some (screenX a), init_screenY = Some (screenY a),
              init_clientX = Some (clientX a), init_clientY = Some (clientY a),
              init_pageX = Some (pageX a), init_pageY = Some (pageY a),
              init_button = Some 2, init_buttons = Some 2, init_deltaY = None,
              init_bubbles = Some True\<rparr>\<rparr>,
         Dispatched c
           \<lparr>ev_ctor = MouseEvent, ev_type = mouseup,
            ev_init = \<lparr>init_screenX = Some (screenX a), init_screenY = Some (screenY a),
              init_clientX = Some (clientX a), init_clientY = Some (clientY a),
              init_pageX = Some (pageX a), init_pageY = Some (pageY a),
              init_button = Some 2, init_buttons = Some 2, init_deltaY = None,
              init_bubbles = Some True\<rparr>\<rparr>] \<and>
    mode (fst (step page2 (TimerFires (next_timer s)) (fst (touchstart page e s)))) = Mode_None \<and>
    contextMenuTimer (fst (step page2 (TimerFires (next_timer s)) (fst (touchstart page e s))))
      = None \<and>
    timers (fst (step page2 (TimerFires (next_timer s)) (fst (touchstart page e s)))) = [] \<and>
    fst (snd (touchend page3 e2
       (fst (step page2 (TimerFires (next_timer s)) (fst (touchstart page e s))))))
      = [PreventDefault]"
proof -
  have inv: "timer_inv s"
    using assms(1) by (simp add: reachable_timer_inv)
  note ts = touchstart_accepted [OF inv assms(2), of page]
  have acc: "fst (checkEvent e2 s')" for s'
    using assms(5) by (simp add: checkEvent_accepts_iff)
  show ?thesis
    using assms(3,4)
    by (simp add: ts fireTimer_def contextMenuCallback_def dispatchEvent_def Let_def
        spread_def override_def empty_init_def touchend_def case_prod_beta acc
        checkEvent_effects
        split: option.splits)
qed

theorem long_press_context_menu_witness:
  "run init_state
      [(page_with_canvas 1920, TouchStart (on_canvas [point 100 100])),
       (page_with_canvas 1920, TimerFires 1)]
     = (\<lparr>canvas = Some (Element 0), mode = Mode_None, prevDistance = None,
         contextMenuTimer = None, timers = [], next_timer = 2\<rparr>,
        [PreventDefault,
         Dispatched (Element 0)
           \<lparr>ev_ctor = MouseEvent, ev_type = mousedown,
            ev_init = \<lparr>init_screenX = Some 100, init_screenY = Some 100,
              init_clientX = Some 100, init_clientY = Some 100,
              init_pageX = Some 100, init_pageY = Some 100,
              init_button = Some 2, init_buttons = Some 2, init_deltaY = None,
              init_bubbles = Some True\<rparr>\<rparr>,
         Dispatched (Element 0)
           \<lparr>ev_ctor = MouseEvent, ev_type = mouseup,
            ev_init = \<lparr>init_screenX = Some 100, init_screenY = Some 100,
              init_clientX = Some 100, init_clientY = Some 100,
              init_pageX = Some 100, init_pageY = Some 100,
              init_button = Some 2, init_buttons = Some 2, init_deltaY = None,
              init_bubbles = Some True\<rparr>\<rparr>])"
proof -
  let ?pg = "page_with_canvas 1920"
  let ?e = "on_canvas [point 100 100]"
  have h: "init_state = fst (run init_state [])" "fst (checkEvent ?e init_state)"
    "touches ?e = [point 100 100]"
    "(case canvas init_state of None \<Rightarrow> getElementById_canvas ?pg | Some el \<Rightarrow> Some el)
       = Some (Element 0)"
    "fst (checkEvent (on_canvas []) init_state)"
    by (simp_all add: checkEvent_def on_canvas_def init_state_def page_with_canvas_def)
  have n: "next_timer init_state = 1"
    by (simp add: init_state_def)
  have "fst (snd (touchstart ?pg ?e init_state)) = [PreventDefault] \<and>
    fst (snd (step ?pg (TimerFires 1) (fst (touchstart ?pg ?e init_state))))
      = [Dispatched (Element 0)
           \<lparr>ev_ctor = MouseEvent, ev_type = mousedown,
            ev_init = \<lparr>init_screenX = Some 100, init_screenY = Some 100,
              init_clientX = Some 100, init_clientY = Some 100,
              init_pageX = Some 100, init_pageY = Some 100,
              init_button = Some 2, init_buttons = Some 2, init_deltaY = None,
              init_bubbles = Some True\<rparr>\<rparr>,
         Dispatched (Element 0)
           \<lparr>ev_ctor = MouseEvent, ev_type = mouseup,
            ev_init = \<lparr>init_screenX = Some 100, init_screenY = Some 100,
              init_clientX = Some 100, init_clientY = Some 100,
              init_pageX = Some 100, init_pageY = Some 100,
              init_button = Some 2, init_buttons = Some 2, init_deltaY = None,
              init_bubbles = Some True\<rparr>\<rparr>]"
    using long_press_context_menu [OF h, of ?pg ?pg] unfolding n
    by (simp add: point_def)
  then show ?thesis
    by (simp add: case_prod_beta) (simp add: eval_defs)
qed

section \<open>Quick tap\<close>

text \<open>
  Claim C5. In any reachable state, an accepted \<open>touchstart\<close> with one touch point
  followed by an accepted \<open>touchend\<close>, with no move and no timer firing between them,
  dispatches exactly three events when the canvas element can be found: \<open>mousemove\<close>,
  \<open>mousedown\<close>, \<open>mouseup\<close>, in this order, none of them with a \<open>button\<close> or \<open>buttons\<close>
  member, so all with the default button 0. The mode is \<open>None\<close> again and the timer is
  cleared.
\<close>

theorem quick_tap_click:
  assumes "s = fst (run init_state ins)"
    and "fst (checkEvent e1 s)"
    and "touches e1 = [a]"
    and "fst (checkEvent e2 s)"
    and "(case canvas s of None \<Rightarrow> getElementById_canvas page2 | Some el \<Rightarrow> Some el) = Some c"
  shows "fst (snd (touchstart page e1 s)) = [PreventDefault] \<and>
    fst (snd (touchend page2 e2 (fst (touchstart page e1 s))))
      = [PreventDefault,
         Dispatched c \<lparr>ev_ctor = MouseEvent, ev_type = mousemove,
           ev_init = (touch_init (touches e2))\<lparr>init_bubbles := Some True\<rparr>\<rparr>,
         Dispatched c \<lparr>ev_ctor = MouseEvent, ev_type = mousedown,
           ev_init = (touch_init (touches e2))\<lparr>init_bubbles := Some True\<rparr>\<rparr>,
         Dispatched c \<lparr>ev_ctor = MouseEvent, ev_type = mouseup,
           ev_init = (touch_init (touches e2))\<lparr>init_bubbles := Some True\<rparr>\<rparr>] \<and>
    (\<forall>el ev. Dispatched el ev \<in> set (fst (snd (touchend page2 e2 (fst (touchstart page e1 s)))))
       \<longrightarrow> ev_button ev = 0 \<and> ev_buttons ev = 0) \<and>
    snd (snd (touchend page2 e2 (fst (touchstart page e1 s)))) = Returned \<and>
    mode (fst (touchend page2 e2 (fst (touchstart page e1 s)))) = Mode_None \<and>
    contextMenuTimer (fst (touchend page2 e2 (fst (touchstart page e1 s)))) = None \<and>
    timers (fst (touchend page2 e2 (fst (touchstart page e1 s)))) = []"
proof -
  have inv: "timer_inv s"
    using assms(1) by (simp add: reachable_timer_inv)
  note ts = touchstart_accepted [OF inv assms(2), of page]
  have acc: "fst (checkEvent e2 s')" for s'
    using assms(4) by (simp add: checkEvent_accepts_iff)
  have inv1: "timer_inv (fst (touchstart page e1 s))"
    by (rule timer_inv_touchstart [OF inv])
  note dis = checkEvent_disarms [OF inv1 acc]
  have m: "mode (fst (snd (checkEvent e2 (fst (touchstart page e1 s))))) = PreRotate"
    "canvas (fst (snd (checkEvent e2 (fst (touchstart page e1 s))))) = canvas s"
    using assms(3) by (simp_all add: ts)
  have btn: "init_button (touch_init ts) = None \<and> init_buttons (touch_init ts) = None" for ts
    by (cases ts rule: touch_init.cases) (simp_all add: empty_init_def)
  have fx: "fst (snd (touchend page2 e2 (fst (touchstart page e1 s))))
      = [PreventDefault,
         Dispatched c \<lparr>ev_ctor = MouseEvent, ev_type = mousemove,
           ev_init = (touch_init (touches e2))\<lparr>init_bubbles := Some True\<rparr>\<rparr>,
         Dispatched c \<lparr>ev_ctor = MouseEvent, ev_type = mousedown,
           ev_init = (touch_init (touches e2))\<lparr>init_bubbles := Some True\<rparr>\<rparr>,
         Dispatched c \<lparr>ev_ctor = MouseEvent, ev_type = mouseup,
           ev_init = (touch_init (touches e2))\<lparr>init_bubbles := Some True\<rparr>\<rparr>]"
    using assms(5) m
    by (simp add: touchend_def case_prod_beta acc checkEvent_effects dispatchEvent_snd
        dispatchEvent_canvas split: option.splits)
  have st: "snd (snd (touchend page2 e2 (fst (touchstart page e1 s)))) = Returned"
    "mode (fst (touchend page2 e2 (fst (touchstart page e1 s)))) = Mode_None"
    "contextMenuTimer (fst (touchend page2 e2 (fst (touchstart page e1 s)))) = None"
    "timers (fst (touchend page2 e2 (fst (touchstart page e1 s)))) = []"
    using m dis by (simp_all add: touchend_def case_prod_beta acc)
  have b: "\<forall>el ev. Dispatched el ev \<in> set (fst (snd (touchend page2 e2 (fst (touchstart page e1 s)))))
       \<longrightarrow> ev_button ev = 0 \<and> ev_buttons ev = 0"
    unfolding fx by (auto simp: ev_button_def ev_buttons_def btn)
  from fx st b show ?thesis by (simp add: ts)
qed

theorem quick_tap_click_witness:
  "run init_state
      [(page_with_canvas 1920, TouchStart (on_canvas [point 100 100])),
       (page_with_canvas 1920, TouchEnd (on_canvas []))]
     = (\<lparr>canvas = Some (Element 0), mode = Mode_None, prevDistance = None,
         contextMenuTimer = None, timers = [], next_timer = 2\<rparr>,
        [PreventDefault, PreventDefault,
         Dispatched (Element 0)
           \<lparr>ev_ctor = MouseEvent, ev_type = mousemove,
            ev_init = \<lparr>init_screenX = Some 0, init_screenY = Some 0,
              init_clientX = Some 0, init_clientY = Some 0,
              init_pageX = Some 0, init_pageY = Some 0,
              init_button = None, init_buttons = None, init_deltaY = None,
              init_bubbles = Some True\<rparr>\<rparr>,
         Dispatched (Element 0)
           \<lparr>ev_ctor = MouseEvent, ev_type = mousedown,
            ev_init = \<lparr>init_screenX = Some 0, init_screenY = Some 0,
              init_clientX = Some 0, init_clientY = Some 0,
              init_pageX = Some 0, init_pageY = Some 0,
              init_button = None, init_buttons = None, init_deltaY = None,
              init_bubbles = Some True\<rparr>\<rparr>,
         Dispatched (Element 0)
           \<lparr>ev_ctor = MouseEvent, ev_type = mouseup,
            ev_init = \<lparr>init_screenX = Some 0, init_screenY = Some 0,
              init_clientX = Some 0, init_clientY = Some 0,
              init_pageX = Some 0, init_pageY = Some 0,
              init_button = None, init_buttons = None, init_deltaY = None,
              init_bubbles = Some True\<rparr>\<rparr>])"
proof -
  let ?pg = "page_with_canvas 1920"
  let ?e = "on_canvas [point 100 100]"
  have h: "init_state = fst (run init_state [])" "fst (checkEvent ?e init_state)"
    "touches ?e = [point 100 100]"
    "fst (checkEvent (on_canvas []) init_state)"
    "(case canvas init_state of None \<Rightarrow> getElementById_canvas ?pg | Some el \<Rightarrow> Some el)
       = Some (Element 0)"
    by (simp_all add: checkEvent_def on_canvas_def init_state_def page_with_canvas_def)
  have "fst (snd (touchend ?pg (on_canvas []) (fst (touchstart ?pg ?e init_state))))
      = [PreventDefault,
         Dispatched (Element 0) \<lparr>ev_ctor = MouseEvent, ev_type = mousemove,
           ev_init = (touch_init (touches (on_canvas [])))\<lparr>init_bubbles := Some True\<rparr>\<rparr>,
         Dispatched (Element 0) \<lparr>ev_ctor = MouseEvent, ev_type = mousedown,
           ev_init = (touch_init (touches (on_canvas [])))\<lparr>init_bubbles := Some True\<rparr>\<rparr>,
         Dispatched (Element 0) \<lparr>ev_ctor = MouseEvent, ev_type = mouseup,
           ev_init = (touch_init (touches (on_canvas [])))\<lparr>init_bubbles := Some True\<rparr>\<rparr>]"
    using quick_tap_click [OF h, of ?pg] by simp
  then show ?thesis
    by (simp add: case_prod_beta) (simp add: eval_defs)
qed

section \<open>The long-press timer\<close>

text \<open>
  Claim C6. In every state reachable from the initial one the platform holds at most one
  timer, and it is the one whose handle is in \<open>contextMenuTimer\<close>. In such a state every
  accepted notification clears it in \<open>checkEvent\<close>, before anything else: no timer is
  pending after \<open>checkEvent\<close>, after \<open>touchmove\<close> and after \<open>touchend\<close>, and after
  \<open>touchstart\<close> only the new one is. A timer that was pending when a notification was
  accepted is never pending again, whatever follows, and it dispatches nothing: its
  callback does not run.
\<close>

theorem single_long_press_timer:
  "(length (timers (fst (run init_state ins))) \<le> 1 \<and>
    map timer_id (timers (fst (run init_state ins)))
      = (case contextMenuTimer (fst (run init_state ins)) of None \<Rightarrow> [] | Some t \<Rightarrow> [t])) \<and>
   (s = fst (run init_state ins) \<and> fst (checkEvent e s) \<longrightarrow>
      timers (fst (snd (checkEvent e s))) = [] \<and>
      timers (fst (touchmove page e s)) = [] \<and>
      timers (fst (touchend page e s)) = [] \<and>
      timers (fst (touchstart page e s))
        = [\<lparr>timer_id = next_timer s, timer_delay = 1000, timer_event = e\<rparr>]) \<and>
   (s = fst (run init_state ins) \<and> p \<in> set (timers s) \<and> fst (checkEvent e s) \<and>
    i \<in> {TouchStart e, TouchMove e, TouchEnd e} \<longrightarrow>
      timer_id p \<notin> timer_id ` set (timers (fst (run (fst (step page i s)) rest))) \<and>
      step page2 (TimerFires (timer_id p)) (fst (run (fst (step page i s)) rest))
        = (fst (run (fst (step page i s)) rest), [], Returned))"
proof (intro conjI impI)
  have inv: "timer_inv (fst (run init_state ins))"
    by (rule reachable_timer_inv)
  then show m: "map timer_id (timers (fst (run init_state ins)))
      = (case contextMenuTimer (fst (run init_state ins)) of None \<Rightarrow> [] | Some t \<Rightarrow> [t])"
    by (simp add: timer_inv_def)
  have "length (map timer_id (timers (fst (run init_state ins)))) \<le> 1"
    unfolding m by (simp split: option.splits)
  then show "length (timers (fst (run init_state ins))) \<le> 1" by simp
next
  assume a: "s = fst (run init_state ins) \<and> fst (checkEvent e s)"
  then have inv: "timer_inv s" and ok: "fst (checkEvent e s)"
    by (auto simp: reachable_timer_inv)
  show c: "timers (fst (snd (checkEvent e s))) = []"
    using checkEvent_disarms [OF inv ok] by simp
  then show "timers (fst (touchmove page e s)) = []"
    and "timers (fst (touchend page e s)) = []"
    by simp_all
  show "timers (fst (touchstart page e s))
        = [\<lparr>timer_id = next_timer s, timer_delay = 1000, timer_event = e\<rparr>]"
    by (simp add: touchstart_accepted [OF inv ok])
next
  assume a: "s = fst (run init_state ins) \<and> p \<in> set (timers s) \<and> fst (checkEvent e s) \<and>
    i \<in> {TouchStart e, TouchMove e, TouchEnd e}"
  then have inv: "timer_inv s" and ok: "fst (checkEvent e s)" and p: "p \<in> set (timers s)"
    and i: "i = TouchStart e \<or> i = TouchMove e \<or> i = TouchEnd e"
    by (auto simp: reachable_timer_inv)
  from inv p have lt: "timer_id p < next_timer s"
    by (simp add: timer_inv_def)
  have c: "timers (fst (snd (checkEvent e s))) = []"
    using checkEvent_disarms [OF inv ok] by simp
  have gone: "timer_id p \<notin> timer_id ` set (timers (fst (step page i s)))"
    using i lt c by (auto simp: touchstart_accepted [OF inv ok])
  have lt1: "timer_id p < next_timer (fst (step page i s))"
    using lt step_next_timer [of s page i] by simp
  from cleared_timer_stays_cleared [OF lt1 gone, of rest]
  show n: "timer_id p \<notin> timer_id ` set (timers (fst (run (fst (step page i s)) rest)))"
    by simp
  show "step page2 (TimerFires (timer_id p)) (fst (run (fst (step page i s)) rest))
        = (fst (run (fst (step page i s)) rest), [], Returned)"
    using fireTimer_not_pending [OF n] by simp
qed

theorem single_long_press_timer_witness:
  "timers (fst (run init_state [(page_with_canvas 1920, TouchStart (on_canvas [point 1 2]))]))
     = [\<lparr>timer_id = 1, timer_delay = 1000, timer_event = on_canvas [point 1 2]\<rparr>] \<and>
   timers (fst (touchstart (page_with_canvas 1920) (on_canvas [point 3 4, point 5 6])
      (fst (run init_state [(page_with_canvas 1920, TouchStart (on_canvas [point 1 2]))]))))
     = [\<lparr>timer_id = 2, timer_delay = 1000, timer_event = on_canvas [point 3 4, point 5 6]\<rparr>] \<and>
   step (page_with_canvas 1920) (TimerFires 1)
      (fst (run (fst (step (page_with_canvas 1920) (TouchMove (on_canvas [point 3 4]))
          (fst (run init_state [(page_with_canvas 1920, TouchStart (on_canvas [point 1 2]))]))))
        [(page_with_canvas 1920, TouchMove (on_canvas [point 5 6]))]))
     = (fst (run (fst (step (page_with_canvas 1920) (TouchMove (on_canvas [point 3 4]))
          (fst (run init_state [(page_with_canvas 1920, TouchStart (on_canvas [point 1 2]))]))))
        [(page_with_canvas 1920, TouchMove (on_canvas [point 5 6]))]), [], Returned)"
proof -
  let ?pg = "page_with_canvas 1920"
  let ?ins = "[(?pg, TouchStart (on_canvas [point 1 2]))]"
  let ?s = "fst (run init_state ?ins)"
  let ?p = "\<lparr>timer_id = 1, timer_delay = 1000, timer_event = on_canvas [point 1 2]\<rparr>"
  have s: "?s = \<lparr>canvas = None, mode = PreRotate, prevDistance = None,
      contextMenuTimer = Some 1, timers = [?p], next_timer = 2\<rparr>"
    by (simp add: eval_defs)
  have ok: "fst (checkEvent (on_canvas ts) ?s)" for ts
    by (simp add: checkEvent_def on_canvas_def)
  have p: "?p \<in> set (timers ?s)"
    unfolding s by simp
  have a: "timers (fst (touchstart ?pg (on_canvas [point 3 4, point 5 6]) ?s))
     = [\<lparr>timer_id = 2, timer_delay = 1000, timer_event = on_canvas [point 3 4, point 5 6]\<rparr>]"
    using single_long_press_timer [of ?ins ?s "on_canvas [point 3 4, point 5 6]" ?pg] ok
    unfolding s by simp
  have b: "step ?pg (TimerFires 1)
      (fst (run (fst (step ?pg (TouchMove (on_canvas [point 3 4])) ?s))
        [(?pg, TouchMove (on_canvas [point 5 6]))]))
     = (fst (run (fst (step ?pg (TouchMove (on_canvas [point 3 4])) ?s))
        [(?pg, TouchMove (on_canvas [point 5 6]))]), [], Returned)"
    using single_long_press_timer [of ?ins ?s "on_canvas [point 3 4]" ?pg ?p
        "TouchMove (on_canvas [point 3 4])" "[(?pg, TouchMove (on_canvas [point 5 6]))]" ?pg]
      ok p
    by simp
  from s a b show ?thesis by simp
qed

section \<open>The interception gate\<close>

text \<open>
  Claim C7. A notification whose target has an \<open>id\<close> other than \<open>canvas\<close> is rejected
  and nothing happens: \<open>checkEvent\<close> answers false with the state as it was and no effect
  (no \<open>preventDefault\<close>, no timer cleared), and each of the three listeners returns at
  once with the state unchanged and nothing dispatched. Every other notification (no
  target, a target without \<open>id\<close>, or the canvas) is accepted: \<open>preventDefault\<close> is its one
  effect, the timer whose handle is in \<open>contextMenuTimer\<close> is cleared and the variable
  reset, and in every reachable state no timer is left pending.
\<close>

theorem checkEvent_gate:
  "(target e = Some (EventTarget (Some i)) \<and> i \<noteq> ''canvas'' \<longrightarrow>
      checkEvent e s = (False, s, []) \<and>
      touchstart page e s = (s, [], Returned) \<and>
      touchmove page e s = (s, [], Returned) \<and>
      touchend page e s = (s, [], Returned)) \<and>
   (\<not> (\<exists>j. target e = Some (EventTarget (Some j)) \<and> j \<noteq> ''canvas'') \<longrightarrow>
      fst (checkEvent e s) \<and>
      snd (snd (checkEvent e s)) = [PreventDefault] \<and>
      (\<forall>t. contextMenuTimer s = Some t \<and> t \<noteq> 0 \<longrightarrow>
         t \<notin> timer_id ` set (timers (fst (snd (checkEvent e s)))) \<and>
         contextMenuTimer (fst (snd (checkEvent e s))) = None) \<and>
      (s = fst (run init_state ins) \<longrightarrow>
         timers (fst (snd (checkEvent e s))) = [] \<and>
         contextMenuTimer (fst (snd (checkEvent e s))) = None))"
proof (intro conjI impI)
  assume a: "target e = Some (EventTarget (Some i)) \<and> i \<noteq> ''canvas''"
  then have "\<not> fst (checkEvent e s)"
    by (simp add: checkEvent_accepts_iff)
  then show r: "checkEvent e s = (False, s, [])"
    by (rule checkEvent_rejects)
  show "touchstart page e s = (s, [], Returned)"
    by (simp add: touchstart_def r)
  show "touchmove page e s = (s, [], Returned)"
    by (simp add: touchmove_def r)
  show "touchend page e s = (s, [], Returned)"
    by (simp add: touchend_def r)
next
  assume a: "\<not> (\<exists>j. target e = Some (EventTarget (Some j)) \<and> j \<noteq> ''canvas'')"
  then show ok: "fst (checkEvent e s)"
    by (simp add: checkEvent_accepts_iff)
  then show "snd (snd (checkEvent e s)) = [PreventDefault]"
    by (simp add: checkEvent_effects)
  show "\<forall>t. contextMenuTimer s = Some t \<and> t \<noteq> 0 \<longrightarrow>
         t \<notin> timer_id ` set (timers (fst (snd (checkEvent e s)))) \<and>
         contextMenuTimer (fst (snd (checkEvent e s))) = None"
    using ok by (auto simp: checkEvent_def clearTimeout_def split: if_splits)
  {
    assume "s = fst (run init_state ins)"
    then have "timer_inv s"
      by (simp add: reachable_timer_inv)
    then show "timers (fst (snd (checkEvent e s))) = []"
      and "contextMenuTimer (fst (snd (checkEvent e s))) = None"
      using checkEvent_disarms [OF _ ok] by simp_all
  }
qed

theorem checkEvent_gate_witness:
  "touchend (page_with_canvas 1920) (on_element ''toolbar'' [])
      (fst (touchstart (page_with_canvas 1920) (on_canvas [point 1 2]) init_state))
     = (fst (touchstart (page_with_canvas 1920) (on_canvas [point 1 2]) init_state), [], Returned) \<and>
   contextMenuTimer (fst (touchstart (page_with_canvas 1920) (on_canvas [point 1 2]) init_state))
     = Some 1 \<and>
   checkEvent (on_canvas [])
      (fst (touchstart (page_with_canvas 1920) (on_canvas [point 1 2]) init_state))
     = (True,
        fst (snd (checkEvent (on_canvas [])
          (fst (touchstart (page_with_canvas 1920) (on_canvas [point 1 2]) init_state)))),
        [PreventDefault]) \<and>
   timers (fst (snd (checkEvent (on_canvas [])
      (fst (touchstart (page_with_canvas 1920) (on_canvas [point 1 2]) init_state))))) = [] \<and>
   fst (checkEvent \<lparr>target = None, touches = []\<rparr> init_state) \<and>
   fst (checkEvent \<lparr>target = Some (EventTarget None), touches = []\<rparr> init_state)"
proof -
  let ?pg = "page_with_canvas 1920"
  let ?s = "fst (touchstart ?pg (on_canvas [point 1 2]) init_state)"
  have r: "?s = fst (run init_state [(?pg, TouchStart (on_canvas [point 1 2]))])"
    by (simp add: case_prod_beta)
  have t: "contextMenuTimer ?s = Some 1"
    by (simp add: touchstart_def checkEvent_def setTimeout_def init_state_def on_canvas_def)
  have a: "touchend ?pg (on_element ''toolbar'' []) ?s = (?s, [], Returned)"
    using checkEvent_gate [of "on_element ''toolbar'' []" "''toolbar''" ?s ?pg]
    by (simp add: on_element_def)
  have b: "fst (checkEvent (on_canvas []) ?s) \<and>
      snd (snd (checkEvent (on_canvas []) ?s)) = [PreventDefault] \<and>
      timers (fst (snd (checkEvent (on_canvas []) ?s))) = []"
    using checkEvent_gate [of "on_canvas []" _ ?s _ "[(?pg, TouchStart (on_canvas [point 1 2]))]"] r
    by (simp add: on_canvas_def)
  have c: "fst (checkEvent \<lparr>target = None, touches = []\<rparr> init_state)"
    using checkEvent_gate [of "\<lparr>target = None, touches = []\<rparr>" _ init_state] by simp
  have d: "fst (checkEvent \<lparr>target = Some (EventTarget None), touches = []\<rparr> init_state)"
    using checkEvent_gate [of "\<lparr>target = Some (EventTarget None), touches = []\<rparr>" _ init_state]
    by simp
  from b have "checkEvent (on_canvas []) ?s
      = (True, fst (snd (checkEvent (on_canvas []) ?s)), [PreventDefault])"
    by (metis prod.collapse)
  with a b c d t show ?thesis by simp
qed

section \<open>Listener suppression\<close>

text \<open>
  Claim C8. A call of the patched \<open>addEventListener\<close> with a type that starts with
  \<open>touch\<close> returns \<open>undefined\<close> and leaves the listener table as it was, whatever the
  original function is (it is not called); with any other type the call is the original
  function's, with the same receiver, type and arguments.
\<close>

theorem addEventListener_drops_touch:
  "((\<exists>r. ty = ''touch'' @ r) \<longrightarrow> addEventListener orig this ty args l = (None, l)) \<and>
   (\<not> (\<exists>r. ty = ''touch'' @ r) \<longrightarrow>
      addEventListener orig this ty args l
        = (Some (fst (orig this ty args l)), snd (orig this ty args l)))"
  by (simp add: addEventListener_def startsWith_iff case_prod_beta del: append.simps)

theorem addEventListener_drops_touch_witness:
  "addEventListener platform_addEventListener (Element 1) ''touchstart'' 7 [] = (None, []) \<and>
   addEventListener platform_addEventListener (Element 1) ''touch'' 7 [] = (None, []) \<and>
   addEventListener platform_addEventListener (Element 1) ''mousedown'' 7 []
     = (Some (), [(Element 1, ''mousedown'', 7)]) \<and>
   addEventListener platform_addEventListener (Element 1) ''Touchstart'' 7 []
     = (Some (), [(Element 1, ''Touchstart'', 7)])"
  using addEventListener_drops_touch [of "''touchstart''" platform_addEventListener "Element 1" 7 "[]"]
    addEventListener_drops_touch [of "''touch''" platform_addEventListener "Element 1" 7 "[]"]
    addEventListener_drops_touch [of "''mousedown''" platform_addEventListener "Element 1" 7 "[]"]
    addEventListener_drops_touch [of "''Touchstart''" platform_addEventListener "Element 1" 7 "[]"]
  by (simp add: platform_addEventListener_def)

section \<open>The event synthesizer\<close>

text \<open>
  Claim C9. Every event \<open>dispatchEvent\<close> builds bubbles, whatever \<open>eventInit\<close> the caller
  passes (also one that sets \<open>bubbles\<close> to false). Every event the listeners and the timer
  callback synthesize bubbles and has the six coordinates of the coordinate rule applied
  to the touch points of the notification it comes from: the mean of the two points, the
  one point, or zero. For the timer that notification is the \<open>touchstart\<close> that armed it.
\<close>

theorem synthesized_event_coordinates:
  "(Dispatched el ev \<in> set (snd (dispatchEvent page e ty eventInit s)) \<longrightarrow> ev_bubbles ev) \<and>
   (Dispatched el ev \<in> set (fst (snd (touchstart page e s)))
        \<union> set (fst (snd (touchmove page e s)))
        \<union> set (fst (snd (touchend page e s)))
        \<union> set (snd (contextMenuCallback page e s)) \<longrightarrow>
      ev_bubbles ev \<and> ev_coords ev = spec_coords (touches e)) \<and>
   (find (\<lambda>p. timer_id p = t) (timers s) = Some p \<and>
    Dispatched el ev \<in> set (fst (snd (fireTimer page t s))) \<longrightarrow>
      ev_bubbles ev \<and> ev_coords ev = spec_coords (touches (timer_event p)))"
proof (intro conjI impI)
  assume "Dispatched el ev \<in> set (snd (dispatchEvent page e ty eventInit s))"
  then show "ev_bubbles ev" by (rule dispatchEvent_bubbles)
next
  assume "Dispatched el ev \<in> set (fst (snd (touchstart page e s)))
        \<union> set (fst (snd (touchmove page e s)))
        \<union> set (fst (snd (touchend page e s)))
        \<union> set (snd (contextMenuCallback page e s))"
  then have "ev_bubbles ev \<and> ev_coords ev = spec_coords (touches e)"
    using touchmove_coords [of el ev page e s] touchend_coords [of el ev page e s]
      contextMenuCallback_coords [of el ev page e s]
    by (auto simp: touchstart_effects split: if_splits)
  then show "ev_bubbles ev" and "ev_coords ev = spec_coords (touches e)" by simp_all
next
  assume a: "find (\<lambda>p. timer_id p = t) (timers s) = Some p \<and>
    Dispatched el ev \<in> set (fst (snd (fireTimer page t s)))"
  then have "Dispatched el ev \<in> set (snd (contextMenuCallback page (timer_event p)
      (s\<lparr>timers := filter (\<lambda>q. timer_id q \<noteq> t) (timers s)\<rparr>)))"
    by (clarsimp simp: fireTimer_def case_prod_beta)
  then have "ev_bubbles ev \<and> ev_coords ev = spec_coords (touches (timer_event p))"
    by (rule contextMenuCallback_coords)
  then show "ev_bubbles ev" and "ev_coords ev = spec_coords (touches (timer_event p))"
    by simp_all
qed


theorem synthesized_event_coordinates_witness:
  "Dispatched (Element 0)
      \<lparr>ev_ctor = MouseEvent, ev_type = mousedown,
       ev_init = \<lparr>init_screenX = Some 40, init_screenY = Some 20, init_clientX = Some 40,
         init_clientY = Some 20, init_pageX = Some 40, init_pageY = Some 20,
         init_button = Some 1, init_buttons = Some 4, init_deltaY = None,
         init_bubbles = Some True\<rparr>\<rparr>
     \<in> set (fst (snd (touchmove (page_with_canvas 1920) (on_canvas [point 0 10, point 80 30])
           (init_state\<lparr>mode := PreZoomPan\<rparr>)))) \<and>
   spec_coords (touches (on_canvas [point 0 10, point 80 30])) = point 40 20 \<and>
   Dispatched (Element 0)
      \<lparr>ev_ctor = MouseEvent, ev_type = mouseup,
       ev_init = \<lparr>init_screenX = Some 0, init_screenY = Some 0, init_clientX = Some 0,
         init_clientY = Some 0, init_pageX = Some 0, init_pageY = Some 0,
         init_button = None, init_buttons = None, init_deltaY = None,
         init_bubbles = Some True\<rparr>\<rparr>
     \<in> set (fst (snd (touchend (page_with_canvas 1920) (on_canvas [])
           (init_state\<lparr>mode := PreRotate\<rparr>)))) \<and>
   spec_coords (touches (on_canvas [])) = point 0 0 \<and>
   Dispatched (Element 0)
      \<lparr>ev_ctor = WheelEvent, ev_type = mousewheel,
       ev_init = \<lparr>init_screenX = Some 3, init_screenY = Some 4, init_clientX = Some 3,
         init_clientY = Some 4, init_pageX = Some 3, init_pageY = Some 4,
         init_button = None, init_buttons = None, init_deltaY = None,
         init_bubbles = Some True\<rparr>\<rparr>
     \<in> set (snd (dispatchEvent (page_with_canvas 1920) (on_canvas [point 3 4]) mousewheel
           (empty_init\<lparr>init_bubbles := Some False\<rparr>) init_state)) \<and>
   ev_bubbles
      \<lparr>ev_ctor = WheelEvent, ev_type = mousewheel,
       ev_init = \<lparr>init_screenX = Some 3, init_screenY = Some 4, init_clientX = Some 3,
         init_clientY = Some 4, init_pageX = Some 3, init_pageY = Some 4,
         init_button = None, init_buttons = None, init_deltaY = None,
         init_bubbles = Some True\<rparr>\<rparr>"
proof -
  let ?pg = "page_with_canvas 1920"
  let ?d = "\<lparr>ev_ctor = MouseEvent, ev_type = mousedown,
       ev_init = \<lparr>init_screenX = Some 40, init_screenY = Some 20, init_clientX = Some 40,
         init_clientY = Some 20, init_pageX = Some 40, init_pageY = Some 20,
         init_button = Some 1, init_buttons = Some 4, init_deltaY = None,
         init_bubbles = Some True\<rparr>\<rparr>"
  let ?u = "\<lparr>ev_ctor = MouseEvent, ev_type = mouseup,
       ev_init = \<lparr>init_screenX = Some 0, init_screenY = Some 0, init_clientX = Some 0,
         init_clientY = Some 0, init_pageX = Some 0, init_pageY = Some 0,
         init_button = None, init_buttons = None, init_deltaY = None,
         init_bubbles = Some True\<rparr>\<rparr>"
  let ?w = "\<lparr>ev_ctor = WheelEvent, ev_type = mousewheel,
       ev_init = \<lparr>init_screenX = Some 3, init_screenY = Some 4, init_clientX = Some 3,
         init_clientY = Some 4, init_pageX = Some 3, init_pageY = Some 4,
         init_button = None, init_buttons = None, init_deltaY = None,
         init_bubbles = Some True\<rparr>\<rparr>"
  have a: "Dispatched (Element 0) ?d
     \<in> set (fst (snd (touchmove ?pg (on_canvas [point 0 10, point 80 30])
           (init_state\<lparr>mode := PreZoomPan\<rparr>))))"
    by (simp add: eval_defs)
  have b: "Dispatched (Element 0) ?u
     \<in> set (fst (snd (touchend ?pg (on_canvas []) (init_state\<lparr>mode := PreRotate\<rparr>))))"
    by (simp add: eval_defs)
  have c: "Dispatched (Element 0) ?w
     \<in> set (snd (dispatchEvent ?pg (on_canvas [point 3 4]) mousewheel
           (empty_init\<lparr>init_bubbles := Some False\<rparr>) init_state))"
    by (simp add: eval_defs)
  have "ev_coords ?d = spec_coords (touches (on_canvas [point 0 10, point 80 30]))"
    using synthesized_event_coordinates [of "Element 0" ?d ?pg "on_canvas [point 0 10, point 80 30]"
        _ _ "init_state\<lparr>mode := PreZoomPan\<rparr>"] a
    by simp
  then have a': "spec_coords (touches (on_canvas [point 0 10, point 80 30])) = point 40 20"
    by (simp add: ev_coords_def point_def)
  have "ev_coords ?u = spec_coords (touches (on_canvas []))"
    using synthesized_event_coordinates [of "Element 0" ?u ?pg "on_canvas []"
        _ _ "init_state\<lparr>mode := PreRotate\<rparr>"] b
    by simp
  then have b': "spec_coords (touches (on_canvas [])) = point 0 0"
    by (simp add: ev_coords_def point_def)
  have c': "ev_bubbles ?w"
    using synthesized_event_coordinates [of "Element 0" ?w ?pg "on_canvas [point 3 4]" mousewheel
        "empty_init\<lparr>init_bubbles := Some False\<rparr>" init_state] c
    by simp
  from a b c a' b' c' show ?thesis by simp
qed

section \<open>A recorded distance of zero\<close>

text \<open>
  Claim C10. In \<open>ZoomPan\<close> with a recorded previous distance of exactly \<open>0\<close>, an accepted
  move with two touch points dispatches the \<open>mousemove\<close> and nothing else: no wheel event,
  although a distance was recorded. The new distance replaces the old one, and it is
  \<open>0\<close> again when the two points coincide.
\<close>

theorem zero_distance_skips_wheel:
  assumes "fst (checkEvent e s)" and "mode s = ZoomPan" and "prevDistance s = Some 0"
    and "touches e = a # b # rest"
  shows "snd (snd (touchmove page e s)) = Returned \<and>
    fst (snd (touchmove page e s))
      = PreventDefault # snd (dispatchEvent page e mousemove (empty_init\<lparr>init_button := Some 2\<rparr>)
                                (fst (snd (checkEvent e s)))) \<and>
    (\<forall>el ev. Dispatched el ev \<in> set (fst (snd (touchmove page e s))) \<longrightarrow> ev_type ev = mousemove) \<and>
    mode (fst (touchmove page e s)) = ZoomPan \<and>
    prevDistance (fst (touchmove page e s))
      = Some (hypot (screenX a - screenX b) (screenY a - screenY b)) \<and>
    (screenX a = screenX b \<and> screenY a = screenY b \<longrightarrow>
       prevDistance (fst (touchmove page e s)) = Some 0)"
proof -
  have fx: "fst (snd (touchmove page e s))
      = PreventDefault # snd (dispatchEvent page e mousemove (empty_init\<lparr>init_button := Some 2\<rparr>)
                                (fst (snd (checkEvent e s))))"
    using assms by (simp add: touchmove_def case_prod_beta Let_def checkEvent_effects)
  have ty: "\<forall>el ev. Dispatched el ev \<in> set (fst (snd (touchmove page e s))) \<longrightarrow> ev_type ev = mousemove"
    unfolding fx by (auto dest: dispatchEvent_type)
  have st: "snd (snd (touchmove page e s)) = Returned"
    "mode (fst (touchmove page e s)) = ZoomPan"
    "prevDistance (fst (touchmove page e s))
      = Some (hypot (screenX a - screenX b) (screenY a - screenY b))"
    using assms by (simp_all add: touchmove_def case_prod_beta Let_def)
  from st(3) have "screenX a = screenX b \<and> screenY a = screenY b \<longrightarrow>
       prevDistance (fst (touchmove page e s)) = Some 0"
    by (simp add: hypot_0_0)
  with fx ty st show ?thesis by simp
qed

theorem zero_distance_skips_wheel_witness:
  "mode (fst (run init_state
      [(page_with_canvas 1920, TouchStart (on_canvas [point 0 0, point 100 0])),
       (page_with_canvas 1920, TouchMove (on_canvas [point 0 0, point 100 0])),
       (page_with_canvas 1920, TouchMove (on_canvas [point 7 7, point 7 7]))])) = ZoomPan \<and>
   prevDistance (fst (run init_state
      [(page_with_canvas 1920, TouchStart (on_canvas [point 0 0, point 100 0])),
       (page_with_canvas 1920, TouchMove (on_canvas [point 0 0, point 100 0])),
       (page_with_canvas 1920, TouchMove (on_canvas [point 7 7, point 7 7]))])) = Some 0 \<and>
   fst (snd (touchmove (page_with_canvas 1920) (on_canvas [point 0 0, point 50 0])
     (fst (run init_state
      [(page_with_canvas 1920, TouchStart (on_canvas [point 0 0, point 100 0])),
       (page_with_canvas 1920, TouchMove (on_canvas [point 0 0, point 100 0])),
       (page_with_canvas 1920, TouchMove (on_canvas [point 7 7, point 7 7]))]))))
     = [PreventDefault,
        Dispatched (Element 0)
          \<lparr>ev_ctor = MouseEvent, ev_type = mousemove,
           ev_init = \<lparr>init_screenX = Some 25, init_screenY = Some 0, init_clientX = Some 25,
             init_clientY = Some 0, init_pageX = Some 25, init_pageY = Some 0,
             init_button = Some 2, init_buttons = None, init_deltaY = None,
             init_bubbles = Some True\<rparr>\<rparr>] \<and>
   prevDistance (fst (touchmove (page_with_canvas 1920) (on_canvas [point 0 0, point 50 0])
     (fst (run init_state
      [(page_with_canvas 1920, TouchStart (on_canvas [point 0 0, point 100 0])),
       (page_with_canvas 1920, TouchMove (on_canvas [point 0 0, point 100 0])),
       (page_with_canvas 1920, TouchMove (on_canvas [point 7 7, point 7 7]))])))) = Some 50"
proof -
  let ?pg = "page_with_canvas 1920"
  let ?s = "fst (run init_state
      [(?pg, TouchStart (on_canvas [point 0 0, point 100 0])),
       (?pg, TouchMove (on_canvas [point 0 0, point 100 0])),
       (?pg, TouchMove (on_canvas [point 7 7, point 7 7]))])"
  have s: "?s = \<lparr>canvas = Some (Element 0), mode = ZoomPan, prevDistance = Some 0,
      contextMenuTimer = None, timers = [], next_timer = 2\<rparr>"
    by (simp add: eval_defs)
  have h: "fst (checkEvent (on_canvas [point 0 0, point 50 0]) ?s)" "mode ?s = ZoomPan"
    "prevDistance ?s = Some 0"
    "touches (on_canvas [point 0 0, point 50 0]) = point 0 0 # point 50 0 # []"
    unfolding s by (simp_all add: checkEvent_def on_canvas_def)
  show ?thesis
    using zero_distance_skips_wheel [OF h, of ?pg] unfolding s
    by (simp add: eval_defs)
qed

end
